theory Spec2Isabelle
  imports Complex_Main
begin

section \<open>Expanded retrieval: the nodes of \<^verbatim>\<open>onyx/agent_search/expanded_retrieval/nodes.py\<close>\<close>

text \<open>
  The nodes of the expanded-retrieval graph are embedded as HOL functions. A Python string
  is a \<open>string\<close>, the list of the bytes of its UTF-8 encoding; Python integers are
  \<open>int\<close>; relevance scores (Python floats) are
  idealised as \<open>real\<close>, which only the two averages of the chunk statistics depend on.
  Every exception of the source is a value of \<open>py_error\<close>, and a node returns the list of
  external calls it made together with either the error or its update fragment.
\<close>

subsection \<open>Python string operations used by the nodes\<close>

text \<open>\<^verbatim>\<open>s.startswith(p)\<close>.\<close>

fun startswith :: "string \<Rightarrow> string \<Rightarrow> bool" where
  "startswith s [] = True"
| "startswith [] (p # ps) = False"
| "startswith (c # cs) (p # ps) = (c = p \<and> startswith cs ps)"

text \<open>
  \<^verbatim>\<open>str.isspace\<close> holds for 29 code points: U+0009 to U+000D, U+001C to U+0020, U+0085,
  U+00A0, U+1680, U+2000 to U+200A, U+2028, U+2029, U+202F, U+205F and U+3000.
  \<open>whitespace\<close> lists their UTF-8 encodings, of one, two or three bytes. No encoding is
  the beginning or the end of another.
\<close>

definition whitespace :: "string list" where
  "whitespace =
     [[CHR 0x09], [CHR 0x0A], [CHR 0x0B], [CHR 0x0C], [CHR 0x0D],
      [CHR 0x1C], [CHR 0x1D], [CHR 0x1E], [CHR 0x1F], [CHR 0x20],
      [CHR 0xC2, CHR 0x85], [CHR 0xC2, CHR 0xA0],
      [CHR 0xE1, CHR 0x9A, CHR 0x80],
      [CHR 0xE2, CHR 0x80, CHR 0x80], [CHR 0xE2, CHR 0x80, CHR 0x81],
      [CHR 0xE2, CHR 0x80, CHR 0x82], [CHR 0xE2, CHR 0x80, CHR 0x83],
      [CHR 0xE2, CHR 0x80, CHR 0x84], [CHR 0xE2, CHR 0x80, CHR 0x85],
      [CHR 0xE2, CHR 0x80, CHR 0x86], [CHR 0xE2, CHR 0x80, CHR 0x87],
      [CHR 0xE2, CHR 0x80, CHR 0x88], [CHR 0xE2, CHR 0x80, CHR 0x89],
      [CHR 0xE2, CHR 0x80, CHR 0x8A],
      [CHR 0xE2, CHR 0x80, CHR 0xA8], [CHR 0xE2, CHR 0x80, CHR 0xA9],
      [CHR 0xE2, CHR 0x80, CHR 0xAF],
      [CHR 0xE2, CHR 0x81, CHR 0x9F],
      [CHR 0xE3, CHR 0x80, CHR 0x80]]"

text \<open>The unit, if any, with which a string begins.\<close>

definition leading_unit :: "string list \<Rightarrow> string \<Rightarrow> string option" where
  "leading_unit units s = find (\<lambda>w. w \<noteq> [] \<and> startswith s w) units"

text \<open>The loop of \<^verbatim>\<open>str.lstrip\<close>: leading units are dropped until the string begins with
  none. Each step shortens the string.\<close>

function drop_units :: "string list \<Rightarrow> string \<Rightarrow> string" where
  "drop_units units s =
     (case leading_unit units s of
        None \<Rightarrow> s
      | Some w \<Rightarrow> drop_units units (drop (length w) s))"
  by pat_completeness auto
termination
proof (relation "measure (\<lambda>(units, s). length s)")
  show "wf (measure (\<lambda>(units, s). length s))" by simp
next
  fix units :: "string list" and s w :: string
  assume "leading_unit units s = Some w"
  then have "w \<noteq> []" and "startswith s w"
    by (auto simp: leading_unit_def find_Some_iff)
  then have "s \<noteq> []" by (cases w; cases s) simp_all
  with \<open>w \<noteq> []\<close> have "length (drop (length w) s) < length s" by simp
  then show "((units, drop (length w) s), (units, s)) \<in> measure (\<lambda>(units, s). length s)"
    by simp
qed

declare drop_units.simps [simp del]

definition lstrip :: "string \<Rightarrow> string" where
  "lstrip s = drop_units whitespace s"

text \<open>\<^verbatim>\<open>str.rstrip\<close> is the same loop from the end of the string.\<close>

definition rstrip :: "string \<Rightarrow> string" where
  "rstrip s = rev (drop_units (map rev whitespace) (rev s))"

text \<open>\<^verbatim>\<open>s.strip()\<close>: leading and trailing whitespace removed.\<close>

definition strip :: "string \<Rightarrow> string" where
  "strip s = rstrip (lstrip s)"

text \<open>\<^verbatim>\<open>s.lower()\<close>: the letters A..Z are mapped to a..z. Bytes from 128 on belong to
  UTF-8 sequences of other code points, none of which lowers to an ASCII letter of
  \<^verbatim>\<open>"yes"\<close>; they are left as they are.\<close>

definition lower_char :: "char \<Rightarrow> char" where
  "lower_char c = (let n = of_char c :: nat in if 65 \<le> n \<and> n \<le> 90 then char_of (n + 32) else c)"

definition lower :: "string \<Rightarrow> string" where
  "lower s = map lower_char s"

text \<open>\<^verbatim>\<open>sub in s\<close> for strings: \<open>sub\<close> occurs in \<open>s\<close> as a contiguous piece.\<close>

fun py_in :: "string \<Rightarrow> string \<Rightarrow> bool" where
  "py_in sub [] = (sub = [])"
| "py_in sub (c # cs) = (startswith (c # cs) sub \<or> py_in sub cs)"

text \<open>\<^verbatim>\<open>s.split(sep)\<close> for a one-character separator: every occurrence of the separator
  ends a piece, and there is always at least one piece.\<close>

fun split :: "char \<Rightarrow> string \<Rightarrow> string list" where
  "split sep [] = [[]]"
| "split sep (c # cs) =
     (if c = sep then [] # split sep cs
      else (case split sep cs of [] \<Rightarrow> [[c]] | p # ps \<Rightarrow> (c # p) # ps))"

text \<open>\<^verbatim>\<open>str(n)\<close> for an integer, as an f-string renders it: decimal digits, with a leading
  minus sign for a negative number.\<close>

definition digit_char :: "nat \<Rightarrow> char" where
  "digit_char d = char_of (48 + d)"

fun str_nat :: "nat \<Rightarrow> string" where
  "str_nat n = (if n < 10 then [digit_char n] else str_nat (n div 10) @ [digit_char (n mod 10)])"

declare str_nat.simps [simp del]

definition str_int :: "int \<Rightarrow> string" where
  "str_int i = (if i < 0 then CHR ''-'' # str_nat (nat (- i)) else str_nat (nat i))"

text \<open>\<^verbatim>\<open>xs[:n]\<close>: the first \<open>n\<close> elements, and for a negative \<open>n\<close> all but the last \<open>-n\<close>.\<close>

definition py_take :: "int \<Rightarrow> 'a list \<Rightarrow> 'a list" where
  "py_take n xs = (if n < 0 then take (nat (int (length xs) + n)) xs else take (nat n) xs)"

subsection \<open>Data model\<close>

text \<open>
  Modelled from the spec: the classes below are imported by \<^verbatim>\<open>nodes.py\<close> from modules
  that are not among the files under verification (\<^verbatim>\<open>onyx.context.search.models\<close>,
  \<^verbatim>\<open>onyx.agent_search.shared_graph_utils.models\<close>,
  \<^verbatim>\<open>onyx.agent_search.expanded_retrieval.models\<close>). Following section 3 of the
  specification, a document section has a center chunk with a document identifier (a
  string), a chunk number (an integer) and an optional score, and a combined content; a
  query result has the query, the sections retrieved and optional fit statistics. Each
  record keeps the fields that \<^verbatim>\<open>nodes.py\<close> reads or writes, under the names it uses.
\<close>

record InferenceChunk =
  document_id :: string
  chunk_id :: int
  score :: "real option"

record InferenceSection =
  center_chunk :: InferenceChunk
  combined_content :: string

record RetrievalFitStats =
  fit_score_lift :: real
  rerank_effect :: real
  fit_scores :: "(string \<times> real) list"

record QueryResult =
  query :: string
  search_results :: "InferenceSection list"
  stats :: "RetrievalFitStats option"

record AgentChunkStats =
  verified_count :: int
  verified_avg_scores :: real
  rejected_count :: int
  rejected_avg_scores :: "real option"
  verified_doc_chunk_ids :: "string list"
  dismissed_doc_chunk_ids :: "string list"

record ExpandedRetrievalResult =
  expanded_queries_results :: "QueryResult list"
  all_documents :: "InferenceSection list"
  sub_question_retrieval_stats :: AgentChunkStats

datatype py_error =
    ValueError string
  | AttributeError string
  | ZeroDivisionError

subsection \<open>The statistics aggregator\<close>

text \<open>The f-string \<^verbatim>\<open>f"{doc.center_chunk.document_id}_{doc.center_chunk.chunk_id}"\<close>.\<close>

definition doc_chunk_id :: "InferenceSection \<Rightarrow> string" where
  "doc_chunk_id doc =
     document_id (center_chunk doc) @ ''_'' @ str_int (chunk_id (center_chunk doc))"

text \<open>
  \<^verbatim>\<open>chunk_scores\<close> is a dictionary from the rendered key to the list of scores seen for
  it. Python dictionaries iterate in insertion order and the second loop of the function
  depends on that order, so the dictionary is an association list with distinct keys:
  \<^verbatim>\<open>chunk_scores[k]["score"].append(v)\<close> appends to the entry of \<open>k\<close>, creating it at the
  end when \<open>k\<close> is new.
\<close>

fun append_score :: "(string \<times> real list) list \<Rightarrow> string \<Rightarrow> real \<Rightarrow> (string \<times> real list) list" where
  "append_score [] k v = [(k, [v])]"
| "append_score ((k', vs) # rest) k v =
     (if k' = k then (k', vs @ [v]) # rest else (k', vs) # append_score rest k v)"

text \<open>The first loop (lines 291-295): only a document whose score is not \<^verbatim>\<open>None\<close>
  touches the dictionary.\<close>

fun collect_scores :: "(string \<times> real list) list \<Rightarrow> InferenceSection list \<Rightarrow> (string \<times> real list) list" where
  "collect_scores cs [] = cs"
| "collect_scores cs (doc # docs) =
     (case score (center_chunk doc) of
        None \<Rightarrow> collect_scores cs docs
      | Some v \<Rightarrow> collect_scores (append_score cs (doc_chunk_id doc) v) docs)"

definition chunk_scores :: "QueryResult list \<Rightarrow> (string \<times> real list) list" where
  "chunk_scores expanded_retrieval_results =
     collect_scores [] (concat (map search_results expanded_retrieval_results))"

text \<open>\<^verbatim>\<open>float(np.mean(xs))\<close>. On an empty list numpy returns NaN; the aggregator only
  calls it on the score list of a dictionary entry, which is never empty
  (lemma \<open>chunk_scores_nonempty\<close> below).\<close>

definition np_mean :: "real list \<Rightarrow> real" where
  "np_mean xs = sum_list xs / real (length xs)"

text \<open>
  The second loop (lines 303-323) fills two default dictionaries and a list.
  \<^verbatim>\<open>raw_chunk_stats_counts\<close> is only read through \<^verbatim>\<open>[]\<close>, so a missing key reads as 0;
  \<^verbatim>\<open>raw_chunk_stats_scores["rejected_scores"]\<close> is later read through \<^verbatim>\<open>.get\<close>, so whether
  the key exists matters and \<open>raw_rejected_scores\<close> is optional.
\<close>

record raw_chunk_stats =
  raw_verified_count :: int
  raw_rejected_count :: int
  raw_verified_scores :: real
  raw_rejected_scores :: "real option"
  raw_dismissed :: "string list"

definition raw_chunk_stats_init :: raw_chunk_stats where
  "raw_chunk_stats_init =
     \<lparr>raw_verified_count = 0, raw_rejected_count = 0, raw_verified_scores = 0,
      raw_rejected_scores = None, raw_dismissed = []\<rparr>"

definition stats_step :: "string list \<Rightarrow> raw_chunk_stats \<Rightarrow> string \<times> real list \<Rightarrow> raw_chunk_stats" where
  "stats_step verified_ids acc item =
     (let valid_chunk_scores = snd item in
      if fst item \<in> set verified_ids
      then acc\<lparr>raw_verified_count := raw_verified_count acc + 1,
               raw_verified_scores := raw_verified_scores acc + np_mean valid_chunk_scores\<rparr>
      else acc\<lparr>raw_rejected_count := raw_rejected_count acc + 1,
               raw_rejected_scores :=
                 Some ((case raw_rejected_scores acc of None \<Rightarrow> 0 | Some r \<Rightarrow> r)
                       + np_mean valid_chunk_scores),
               raw_dismissed := raw_dismissed acc @ [fst item]\<rparr>)"

fun stats_loop :: "string list \<Rightarrow> raw_chunk_stats \<Rightarrow> (string \<times> real list) list \<Rightarrow> raw_chunk_stats" where
  "stats_loop verified_ids acc [] = acc"
| "stats_loop verified_ids acc (item # items) =
     stats_loop verified_ids (stats_step verified_ids acc item) items"

text \<open>
  \<^verbatim>\<open>_calculate_sub_question_retrieval_stats\<close> (lines 283-349). The division of line 334
  raises \<^verbatim>\<open>ZeroDivisionError\<close> on a zero count; the branch is kept, and lemma
  \<open>calculate_stats_total\<close> shows that it is never taken.
\<close>

definition calculate_sub_question_retrieval_stats ::
  "InferenceSection list \<Rightarrow> QueryResult list \<Rightarrow> py_error + AgentChunkStats" where
  "calculate_sub_question_retrieval_stats verified_documents expanded_retrieval_results =
     (let verified_ids = map doc_chunk_id verified_documents;
          raw = stats_loop verified_ids raw_chunk_stats_init (chunk_scores expanded_retrieval_results);
          verified_avg =
            (if raw_verified_count raw = 0 then 0
             else raw_verified_scores raw / real_of_int (raw_verified_count raw))
      in case raw_rejected_scores raw of
           None \<Rightarrow>
             Inr \<lparr>verified_count = raw_verified_count raw, verified_avg_scores = verified_avg,
                  rejected_count = raw_rejected_count raw, rejected_avg_scores = None,
                  verified_doc_chunk_ids = verified_ids,
                  dismissed_doc_chunk_ids = raw_dismissed raw\<rparr>
         | Some rejected_scores \<Rightarrow>
             if raw_rejected_count raw = 0 then Inl ZeroDivisionError
             else
               Inr \<lparr>verified_count = raw_verified_count raw, verified_avg_scores = verified_avg,
                    rejected_count = raw_rejected_count raw,
                    rejected_avg_scores =
                      Some (rejected_scores / real_of_int (raw_rejected_count raw)),
                    verified_doc_chunk_ids = verified_ids,
                    dismissed_doc_chunk_ids = raw_dismissed raw\<rparr>)"

subsection \<open>External collaborators\<close>

text \<open>
  The language model, the search tool, the reranker and the helpers imported from other
  modules are outside the files under verification. They are taken as they are used:
  the model and the search tool are the handles carried by the state, and the imported
  constants and helper functions are the fields of \<open>deps\<close>, a parameter of every node, so
  that every property below holds whatever they are. A collaborator is a function of its
  arguments; a failure inside a collaborator is not modelled, except for
  \<^verbatim>\<open>parse_question_id\<close>, whose result is an error or a pair. A call of the model or of the
  search tool, and an event emitted by a node, are recorded in the node's list of effects.
\<close>

datatype message_content = StrContent string | ListContent "string list"

record LLM =
  stream :: "string \<Rightarrow> string list"
  invoke :: "string \<Rightarrow> message_content"

datatype tool_payload =
    SearchResponseSummary (top_sections: "InferenceSection list")
  | OtherPayload string

record ToolResponse =
  response_id :: string
  response :: tool_payload

text \<open>\<open>retrieved_sections\<close> is the attribute \<^verbatim>\<open>_retrieved_sections\<close> of the search pipeline,
  as it stands after the run of the tool.\<close>

record SearchPipeline =
  retrieved_sections :: "InferenceSection list option"

record SearchTool =
  run :: "string \<Rightarrow> ToolResponse list"
  search_pipeline :: "SearchPipeline option"

record RerankingDetails =
  rerank_model_name :: "string option"
  num_rerank :: int

record SearchQuery =
  rerank_settings :: "RerankingDetails option"

text \<open>An entry of the list that the reranker returns: \<^verbatim>\<open>type(doc) == InferenceSection\<close>
  holds exactly for a \<open>Section\<close>.\<close>

datatype py_object = Section InferenceSection | NotSection string

record deps =
  AGENT_MAX_QUERY_RETRIEVAL_RESULTS :: int
  AGENT_RERANKING_MAX_QUERY_RETRIEVAL_RESULTS :: int
  AGENT_RERANKING_STATS :: bool
  AGENT_RETRIEVAL_STATS :: bool
  SEARCH_RESPONSE_SUMMARY_ID :: string
  REWRITE_PROMPT_MULTI_ORIGINAL :: "string \<Rightarrow> string"
  VERIFIER_PROMPT :: "string \<Rightarrow> string \<Rightarrow> string"
  parse_question_id :: "string \<Rightarrow> py_error + int \<times> int"
  get_fit_scores :: "py_object list \<Rightarrow> py_object list \<Rightarrow> RetrievalFitStats option"
  retrieval_preprocessing :: "string \<Rightarrow> SearchQuery"
  rerank_sections :: "SearchQuery \<Rightarrow> InferenceSection list \<Rightarrow> py_object list"

datatype effect =
    LlmStream string
  | LlmInvoke string
  | SearchToolRun string
  | ToolResponseEvent string tool_payload int int

type_synonym 'a outcome = "effect list \<times> (py_error + 'a)"

subsection \<open>State and update fragments\<close>

record SearchRequest =
  request_query :: string

record AgentSearchConfig =
  search_request :: SearchRequest
  chat_session_id :: "string option"

record SubgraphCoreState =
  subgraph_config :: AgentSearchConfig
  subgraph_fast_llm :: LLM
  subgraph_search_tool :: SearchTool

text \<open>The keys \<^verbatim>\<open>question\<close> and \<^verbatim>\<open>sub_question_id\<close> are read with \<^verbatim>\<open>state.get\<close>: \<open>None\<close>
  is a missing key (or, for \<^verbatim>\<open>sub_question_id\<close>, the value \<^verbatim>\<open>None\<close>).\<close>

record ExpandedRetrievalInput = SubgraphCoreState +
  question :: "string option"
  sub_question_id :: "string option"

record RetrievalInput = ExpandedRetrievalInput +
  query_to_retrieve :: string

record ExpandedRetrievalState = ExpandedRetrievalInput +
  expanded_queries :: "string list"
  expanded_retrieval_results :: "QueryResult list"
  retrieved_documents :: "InferenceSection list"
  verified_documents :: "InferenceSection list"
  reranked_documents :: "InferenceSection list"

text \<open>In \<open>DocVerificationInput\<close> the keys \<^verbatim>\<open>question\<close> and \<^verbatim>\<open>sub_question_id\<close> are always
  present; they are the fields \<open>verification_question\<close> and \<open>verification_sub_question_id\<close>.\<close>

record DocVerificationInput = SubgraphCoreState +
  doc_to_verify :: InferenceSection
  verification_question :: string
  base_search :: bool
  verification_sub_question_id :: "string option"

record QueryExpansionUpdate =
  upd_expanded_queries :: "string list"

record DocRetrievalUpdate =
  upd_expanded_retrieval_results :: "QueryResult list"
  upd_retrieved_documents :: "InferenceSection list"

record DocVerificationUpdate =
  upd_verified_documents :: "InferenceSection list"

record DocRerankingUpdate =
  upd_reranked_documents :: "InferenceSection list"
  upd_sub_question_retrieval_stats :: "RetrievalFitStats option"

record ExpandedRetrievalUpdate =
  expanded_retrieval_result :: ExpandedRetrievalResult

subsection \<open>Query expansion\<close>

text \<open>\<^verbatim>\<open>state.get("question", state["subgraph_config"].search_request.query)\<close>, the
  expression by which \<^verbatim>\<open>expand_queries\<close>, \<^verbatim>\<open>verification_kickoff\<close> and \<^verbatim>\<open>doc_reranking\<close>
  read the question: the original query is taken only when the key is missing.\<close>

definition question_or_original :: "'a ExpandedRetrievalInput_scheme \<Rightarrow> string" where
  "question_or_original state =
     (case question state of
        Some q \<Rightarrow> q
      | None \<Rightarrow> request_query (search_request (subgraph_config state)))"

text \<open>
  Modelled from the spec: \<^verbatim>\<open>dispatch_separated\<close> and \<^verbatim>\<open>merge_message_runs\<close> are imported
  helpers that are not among the files under verification. Following section 4.1 of the
  specification, the text streamed by the model is accumulated chunk after chunk with no
  separator; the events emitted per chunk are left to the helper.
\<close>

definition merged_stream_content :: "string list \<Rightarrow> string" where
  "merged_stream_content llm_response_list = concat llm_response_list"

text \<open>\<^verbatim>\<open>expand_queries\<close> (lines 67-100). The sub-question identifier is parsed before the
  chat session is checked, as in the source.\<close>

definition expand_queries :: "deps \<Rightarrow> 'a ExpandedRetrievalInput_scheme \<Rightarrow> QueryExpansionUpdate outcome" where
  "expand_queries env state =
     (let question_text = question_or_original state;
          llm = subgraph_fast_llm state;
          session = chat_session_id (subgraph_config state)
      in case (case sub_question_id state of
                 None \<Rightarrow> Inr (0, 0)
               | Some sid \<Rightarrow> parse_question_id env sid) of
           Inl e \<Rightarrow> ([], Inl e)
         | Inr (level, question_nr) \<Rightarrow>
             if session = None
             then ([], Inl (ValueError ''chat_session_id must be provided for agent search''))
             else
               let msg = REWRITE_PROMPT_MULTI_ORIGINAL env question_text;
                   llm_response = merged_stream_content (stream llm msg);
                   rewritten_queries = split (CHR 0x0A) llm_response
               in ([LlmStream msg], Inr \<lparr>upd_expanded_queries = rewritten_queries\<rparr>))"

subsection \<open>Retrieval\<close>

text \<open>The truth value of \<^verbatim>\<open>state["sub_question_id"]\<close>: neither \<^verbatim>\<open>None\<close> nor the empty
  string.\<close>

definition level_and_question_nr :: "deps \<Rightarrow> string option \<Rightarrow> py_error + int \<times> int" where
  "level_and_question_nr env sid =
     (case sid of
        None \<Rightarrow> Inr (0, 0)
      | Some s \<Rightarrow> if s = [] then Inr (0, 0) else parse_question_id env s)"

text \<open>
  The loop over the responses of the search tool (lines 126-148). A response whose
  identifier is the summary identifier replaces \<^verbatim>\<open>retrieved_docs\<close> by its
  \<^verbatim>\<open>top_sections\<close> (a payload without that attribute raises); every response is then
  re-emitted as an event tagged with the level and the question number.
\<close>

fun retrieval_loop ::
  "deps \<Rightarrow> string option \<Rightarrow> ToolResponse list \<Rightarrow> InferenceSection list \<Rightarrow> effect list
   \<Rightarrow> InferenceSection list outcome" where
  "retrieval_loop env sid [] retrieved_docs effs = (effs, Inr retrieved_docs)"
| "retrieval_loop env sid (tool_response # rest) retrieved_docs effs =
     (case (if response_id tool_response = SEARCH_RESPONSE_SUMMARY_ID env
            then (case response tool_response of
                    SearchResponseSummary secs \<Rightarrow> Inr secs
                  | OtherPayload p \<Rightarrow> Inl (AttributeError ''top_sections''))
            else Inr retrieved_docs) of
        Inl e \<Rightarrow> (effs, Inl e)
      | Inr docs \<Rightarrow>
          (case level_and_question_nr env sid of
             Inl e \<Rightarrow> (effs, Inl e)
           | Inr (level, question_nr) \<Rightarrow>
               retrieval_loop env sid rest docs
                 (effs @ [ToolResponseEvent (response_id tool_response) (response tool_response)
                            level question_nr])))"

text \<open>Lines 150-155: \<^verbatim>\<open>search_pipeline._retrieved_sections or retrieved_docs\<close> takes the
  second operand when the first is \<^verbatim>\<open>None\<close> or an empty list.\<close>

definition pre_rerank_docs :: "SearchTool \<Rightarrow> InferenceSection list \<Rightarrow> InferenceSection list" where
  "pre_rerank_docs search_tool retrieved_docs =
     (case search_pipeline search_tool of
        None \<Rightarrow> retrieved_docs
      | Some pipeline \<Rightarrow>
          (case retrieved_sections pipeline of
             None \<Rightarrow> retrieved_docs
           | Some secs \<Rightarrow> if secs = [] then retrieved_docs else secs))"

text \<open>\<^verbatim>\<open>doc_retrieval\<close> (lines 103-173).\<close>

definition doc_retrieval :: "deps \<Rightarrow> 'a RetrievalInput_scheme \<Rightarrow> DocRetrievalUpdate outcome" where
  "doc_retrieval env state =
     (let query_to_retrieve = query_to_retrieve state;
          search_tool = subgraph_search_tool state
      in if strip query_to_retrieve = []
         then ([], Inr \<lparr>upd_expanded_retrieval_results = [], upd_retrieved_documents = []\<rparr>)
         else
           (case retrieval_loop env (sub_question_id state) (run search_tool query_to_retrieve) []
                   [SearchToolRun query_to_retrieve] of
              (effs, Inl e) \<Rightarrow> (effs, Inl e)
            | (effs, Inr docs) \<Rightarrow>
                let retrieved_docs = py_take (AGENT_MAX_QUERY_RETRIEVAL_RESULTS env) docs;
                    pre_rerank = pre_rerank_docs search_tool retrieved_docs;
                    fit =
                      (if AGENT_RETRIEVAL_STATS env
                       then get_fit_scores env (map Section pre_rerank) (map Section retrieved_docs)
                       else None);
                    expanded_retrieval_result =
                      \<lparr>query = query_to_retrieve, search_results = retrieved_docs, stats = fit\<rparr>
                in (effs, Inr \<lparr>upd_expanded_retrieval_results = [expanded_retrieval_result],
                               upd_retrieved_documents = retrieved_docs\<rparr>)))"

subsection \<open>Verification\<close>

text \<open>\<^verbatim>\<open>verification_kickoff\<close> (lines 176-199): one \<^verbatim>\<open>Send\<close> to \<^verbatim>\<open>doc_verification\<close> per
  retrieved document; the list of the arguments sent is returned. The variant in
  \<^verbatim>\<open>nodes/verification_kickoff.py\<close> sends the same documents in the same order and differs
  only in reading \<^verbatim>\<open>state["question"]\<close> directly.\<close>

definition verification_kickoff :: "'a ExpandedRetrievalState_scheme \<Rightarrow> DocVerificationInput list" where
  "verification_kickoff state =
     (let documents = retrieved_documents state;
          verification_question_text = question_or_original state
      in map (\<lambda>doc.
                \<lparr>subgraph_config = subgraph_config state,
                 subgraph_fast_llm = subgraph_fast_llm state,
                 subgraph_search_tool = subgraph_search_tool state,
                 doc_to_verify = doc,
                 verification_question = verification_question_text,
                 base_search = False,
                 verification_sub_question_id = sub_question_id state\<rparr>)
             documents)"

text \<open>\<^verbatim>\<open>doc_verification\<close> (lines 202-235).\<close>

definition doc_verification :: "deps \<Rightarrow> DocVerificationInput \<Rightarrow> DocVerificationUpdate outcome" where
  "doc_verification env state =
     (let document_content = combined_content (doc_to_verify state);
          msg = VERIFIER_PROMPT env (verification_question state) document_content;
          content = invoke (subgraph_fast_llm state) msg
      in ([LlmInvoke msg],
          Inr \<lparr>upd_verified_documents =
                 (case content of
                    StrContent s \<Rightarrow>
                      if py_in ''yes'' (lower s) then [doc_to_verify state] else []
                  | ListContent parts \<Rightarrow> [])\<rparr>))"

subsection \<open>Reranking\<close>

text \<open>The condition of lines 255-259: the settings exist, the model name is neither
  \<^verbatim>\<open>None\<close> nor empty, and the number of documents to rerank is positive.\<close>

definition reranking_configured :: "SearchQuery \<Rightarrow> bool" where
  "reranking_configured search_query =
     (case rerank_settings search_query of
        None \<Rightarrow> False
      | Some settings \<Rightarrow>
          (case rerank_model_name settings of
             None \<Rightarrow> False
           | Some name \<Rightarrow> name \<noteq> [] \<and> num_rerank settings > 0))"

fun genuine_sections :: "py_object list \<Rightarrow> InferenceSection list" where
  "genuine_sections [] = []"
| "genuine_sections (Section doc # rest) = doc # genuine_sections rest"
| "genuine_sections (NotSection other # rest) = genuine_sections rest"

text \<open>\<^verbatim>\<open>doc_reranking\<close> (lines 238-280).\<close>

definition doc_reranking :: "deps \<Rightarrow> 'a ExpandedRetrievalState_scheme \<Rightarrow> DocRerankingUpdate outcome" where
  "doc_reranking env state =
     (let verified = verified_documents state;
          question_text = question_or_original state;
          search_query = retrieval_preprocessing env question_text;
          reranked =
            (if reranking_configured search_query
             then rerank_sections env search_query verified
             else map Section verified);
          fit =
            (if AGENT_RERANKING_STATS env
             then get_fit_scores env (map Section verified) reranked
             else Some \<lparr>fit_score_lift = 0, rerank_effect = 0, fit_scores = []\<rparr>)
      in ([],
          Inr \<lparr>upd_reranked_documents =
                 py_take (AGENT_RERANKING_MAX_QUERY_RETRIEVAL_RESULTS env) (genuine_sections reranked),
               upd_sub_question_retrieval_stats = fit\<rparr>))"

subsection \<open>Result formatting\<close>

text \<open>\<^verbatim>\<open>format_results\<close> (lines 352-369).\<close>

definition format_results :: "'a ExpandedRetrievalState_scheme \<Rightarrow> ExpandedRetrievalUpdate outcome" where
  "format_results state =
     (case calculate_sub_question_retrieval_stats (verified_documents state)
             (expanded_retrieval_results state) of
        Inl e \<Rightarrow> ([], Inl e)
      | Inr chunk_stats \<Rightarrow>
          ([], Inr \<lparr>expanded_retrieval_result =
                     \<lparr>expanded_queries_results = expanded_retrieval_results state,
                      all_documents = reranked_documents state,
                      sub_question_retrieval_stats = chunk_stats\<rparr>\<rparr>))"

subsection \<open>The graph\<close>

text \<open>
  Modelled from the spec: the graph builder that connects the nodes, the edge that fans
  the expanded queries out to \<^verbatim>\<open>doc_retrieval\<close>, and the engine's merge of the update
  fragments are not among the files under verification. Following sections 2, 4 and 5 of
  the specification, the stages run one after the other; the fragments of the retrieval
  tasks and of the verification tasks are merged by list append (here in the order of
  the tasks), the reranked list by replacement, and an error of a node aborts the run.
\<close>

fun all_results :: "(py_error + 'a) list \<Rightarrow> py_error + 'a list" where
  "all_results [] = Inr []"
| "all_results (r # rs) =
     (case r of
        Inl e \<Rightarrow> Inl e
      | Inr x \<Rightarrow> (case all_results rs of Inl e \<Rightarrow> Inl e | Inr xs \<Rightarrow> Inr (x # xs)))"

text \<open>Modelled from the spec: the state handed to one retrieval task, the input of the
  graph with the query to retrieve (section 4.2).\<close>

definition retrieval_input :: "ExpandedRetrievalInput \<Rightarrow> string \<Rightarrow> RetrievalInput" where
  "retrieval_input input q =
     \<lparr>subgraph_config = subgraph_config input, subgraph_fast_llm = subgraph_fast_llm input,
      subgraph_search_tool = subgraph_search_tool input, question = question input,
      sub_question_id = sub_question_id input, query_to_retrieve = q\<rparr>"

text \<open>Modelled from the spec: the state after the retrieval stage, with the fragments of
  the retrieval tasks appended (section 4.2).\<close>

definition retrieved_state ::
  "ExpandedRetrievalInput \<Rightarrow> string list \<Rightarrow> DocRetrievalUpdate list \<Rightarrow> ExpandedRetrievalState" where
  "retrieved_state input queries retrievals =
     \<lparr>subgraph_config = subgraph_config input, subgraph_fast_llm = subgraph_fast_llm input,
      subgraph_search_tool = subgraph_search_tool input, question = question input,
      sub_question_id = sub_question_id input, expanded_queries = queries,
      expanded_retrieval_results = concat (map upd_expanded_retrieval_results retrievals),
      retrieved_documents = concat (map upd_retrieved_documents retrievals),
      verified_documents = [], reranked_documents = []\<rparr>"

text \<open>Modelled from the spec: the stages in their order (section 2), each fan-out
  followed by the merge of its fragments (sections 4.2 to 4.4), ending with
  \<^verbatim>\<open>format_results\<close> (section 4.5).\<close>

definition expanded_retrieval :: "deps \<Rightarrow> ExpandedRetrievalInput \<Rightarrow> py_error + ExpandedRetrievalResult" where
  "expanded_retrieval env input =
     (case snd (expand_queries env input) of
        Inl e \<Rightarrow> Inl e
      | Inr expansion \<Rightarrow>
          (case all_results
                  (map (\<lambda>q. snd (doc_retrieval env (retrieval_input input q)))
                     (upd_expanded_queries expansion)) of
             Inl e \<Rightarrow> Inl e
           | Inr retrievals \<Rightarrow>
               let state1 = retrieved_state input (upd_expanded_queries expansion) retrievals
               in (case all_results
                         (map (\<lambda>task. snd (doc_verification env task)) (verification_kickoff state1)) of
                     Inl e \<Rightarrow> Inl e
                   | Inr verifications \<Rightarrow>
                       let state2 =
                             state1\<lparr>verified_documents :=
                                      concat (map upd_verified_documents verifications)\<rparr>
                       in (case snd (doc_reranking env state2) of
                             Inl e \<Rightarrow> Inl e
                           | Inr reranking \<Rightarrow>
                               (case snd (format_results
                                            (state2\<lparr>reranked_documents :=
                                                      upd_reranked_documents reranking\<rparr>)) of
                                  Inl e \<Rightarrow> Inl e
                                | Inr update \<Rightarrow> Inr (expanded_retrieval_result update))))))"

subsection \<open>The sub-question identifier\<close>

text \<open>\<^verbatim>\<open>int(s)\<close> on a decimal numeral: surrounding whitespace is dropped, a sign may lead,
  and at least one digit must follow; every other string raises \<^verbatim>\<open>ValueError\<close>.\<close>

definition is_digit :: "char \<Rightarrow> bool" where
  "is_digit c = (let n = of_char c :: nat in 48 \<le> n \<and> n \<le> 57)"

definition digits_value :: "string \<Rightarrow> nat" where
  "digits_value s = foldl (\<lambda>acc c. 10 * acc + (of_char c - 48)) 0 s"

definition py_int :: "string \<Rightarrow> py_error + int" where
  "py_int s =
     (let t = strip s;
          negative = (t \<noteq> [] \<and> hd t = CHR ''-'');
          signed = (t \<noteq> [] \<and> (hd t = CHR ''-'' \<or> hd t = CHR ''+''));
          ds = (if signed then tl t else t)
      in if ds \<noteq> [] \<and> list_all is_digit ds
         then Inr (if negative then - int (digits_value ds) else int (digits_value ds))
         else Inl (ValueError ''invalid literal for int() with base 10''))"

text \<open>
  Modelled from the spec: \<^verbatim>\<open>parse_question_id\<close> is imported from
  \<^verbatim>\<open>onyx.agent_search.shared_graph_utils.utils\<close>, which is not among the files under
  verification. Section 3 of the specification describes the sub-question identifier as
  a (level, question number) pair encoded into a single string that is parsed where it is
  consumed. The decoder below reads the two numbers in decimal, separated by an
  underscore, and raises \<^verbatim>\<open>ValueError\<close> on every other string, as \<^verbatim>\<open>str.split\<close>, the
  unpacking of the pieces into two names and \<^verbatim>\<open>int()\<close> do. The nodes take the parser as
  the field \<open>parse_question_id\<close> of \<open>deps\<close>; this decoder is the instance used in the
  examples.
\<close>

definition decode_question_id :: "string \<Rightarrow> py_error + int \<times> int" where
  "decode_question_id question_id =
     (case split (CHR ''_'') question_id of
        [level, question_nr] \<Rightarrow>
          (case py_int level of
             Inl e \<Rightarrow> Inl e
           | Inr l \<Rightarrow> (case py_int question_nr of Inl e \<Rightarrow> Inl e | Inr n \<Rightarrow> Inr (l, n)))
      | _ \<Rightarrow> Inl (ValueError ''wrong number of values to unpack''))"

subsection \<open>Notions used in the statements\<close>

text \<open>The identity of a document section: the pair of its document identifier and its
  chunk number.\<close>

definition identity_key :: "InferenceSection \<Rightarrow> string \<times> int" where
  "identity_key doc = (document_id (center_chunk doc), chunk_id (center_chunk doc))"

definition has_score :: "InferenceSection \<Rightarrow> bool" where
  "has_score doc = (score (center_chunk doc) \<noteq> None)"

text \<open>The documents of all query results, in order.\<close>

definition retrieved_of :: "QueryResult list \<Rightarrow> InferenceSection list" where
  "retrieved_of results = concat (map search_results results)"

text \<open>A query result with the documents that carry no score removed.\<close>

definition scored_only :: "QueryResult \<Rightarrow> QueryResult" where
  "scored_only result = result\<lparr>search_results := filter has_score (search_results result)\<rparr>"

text \<open>A query result with the documents of one identity removed.\<close>

definition without_key :: "string \<times> int \<Rightarrow> QueryResult \<Rightarrow> QueryResult" where
  "without_key key result =
     result\<lparr>search_results := filter (\<lambda>doc. identity_key doc \<noteq> key) (search_results result)\<rparr>"

text \<open>The reranker keeps to the documents it is given: every genuine section of its
  output is one of its input documents (for one input list, and for every input list).\<close>

definition keeps_to_documents :: "deps \<Rightarrow> SearchQuery \<Rightarrow> InferenceSection list \<Rightarrow> bool" where
  "keeps_to_documents env search_query docs =
     (set (genuine_sections (rerank_sections env search_query docs)) \<subseteq> set docs)"

definition returns_given_documents :: "deps \<Rightarrow> SearchQuery \<Rightarrow> bool" where
  "returns_given_documents env search_query =
     (\<forall>docs. keeps_to_documents env search_query docs)"

subsection \<open>Example inputs\<close>

text \<open>
  Concrete collaborators for the examples: a model that streams its prompt back and
  answers every verification with \<^verbatim>\<open>Yes.\<close>, a search tool whose summary holds one scored
  and one unscored section, and a reranker that returns one malformed entry followed by
  its input reversed.
\<close>

definition example_doc :: "string \<Rightarrow> int \<Rightarrow> real option \<Rightarrow> InferenceSection" where
  "example_doc d c sc =
     \<lparr>center_chunk = \<lparr>document_id = d, chunk_id = c, score = sc\<rparr>, combined_content = d\<rparr>"

definition example_llm :: LLM where
  "example_llm = \<lparr>stream = (\<lambda>prompt. [prompt]), invoke = (\<lambda>prompt. StrContent ''Yes.'')\<rparr>"

definition example_tool :: SearchTool where
  "example_tool =
     \<lparr>run = (\<lambda>q. [\<lparr>response_id = ''summary'',
                    response = SearchResponseSummary
                      [example_doc ''a'' 1 (Some 1), example_doc ''b'' 2 None]\<rparr>]),
      search_pipeline = None\<rparr>"

definition example_deps :: deps where
  "example_deps =
     \<lparr>AGENT_MAX_QUERY_RETRIEVAL_RESULTS = 10,
      AGENT_RERANKING_MAX_QUERY_RETRIEVAL_RESULTS = 1,
      AGENT_RERANKING_STATS = False,
      AGENT_RETRIEVAL_STATS = True,
      SEARCH_RESPONSE_SUMMARY_ID = ''summary'',
      REWRITE_PROMPT_MULTI_ORIGINAL = (\<lambda>q. q),
      VERIFIER_PROMPT = (\<lambda>q content. q @ content),
      parse_question_id = decode_question_id,
      get_fit_scores =
        (\<lambda>pre post. Some \<lparr>fit_score_lift = real (length pre) - real (length post),
                            rerank_effect = 0, fit_scores = []\<rparr>),
      retrieval_preprocessing =
        (\<lambda>q. \<lparr>rerank_settings = Some \<lparr>rerank_model_name = Some ''reranker'', num_rerank = 5\<rparr>\<rparr>),
      rerank_sections = (\<lambda>search_query docs. NotSection ''junk'' # map Section (rev docs))\<rparr>"

definition example_input :: "string option \<Rightarrow> string option \<Rightarrow> string option \<Rightarrow> ExpandedRetrievalInput" where
  "example_input session q sid =
     \<lparr>subgraph_config =
        \<lparr>search_request = \<lparr>request_query = ''refund policy''\<rparr>, chat_session_id = session\<rparr>,
      subgraph_fast_llm = example_llm, subgraph_search_tool = example_tool,
      question = q, sub_question_id = sid\<rparr>"

definition example_task :: "message_content \<Rightarrow> DocVerificationInput" where
  "example_task answer =
     \<lparr>subgraph_config =
        \<lparr>search_request = \<lparr>request_query = ''refund policy''\<rparr>, chat_session_id = Some ''session''\<rparr>,
      subgraph_fast_llm = \<lparr>stream = (\<lambda>prompt. [prompt]), invoke = (\<lambda>prompt. answer)\<rparr>,
      subgraph_search_tool = example_tool,
      doc_to_verify = example_doc ''a'' 1 (Some 1), verification_question = ''q'',
      base_search = False, verification_sub_question_id = None\<rparr>"

text \<open>A reranker that returns a document of its own, whatever it is given.\<close>

definition inventing_deps :: deps where
  "inventing_deps =
     example_deps\<lparr>rerank_sections := (\<lambda>search_query docs. [Section (example_doc ''z'' 9 None)])\<rparr>"

definition example_state :: "InferenceSection list \<Rightarrow> ExpandedRetrievalState" where
  "example_state verified =
     \<lparr>subgraph_config =
        \<lparr>search_request = \<lparr>request_query = ''refund policy''\<rparr>, chat_session_id = Some ''session''\<rparr>,
      subgraph_fast_llm = example_llm, subgraph_search_tool = example_tool,
      question = None, sub_question_id = None, expanded_queries = [],
      expanded_retrieval_results = [], retrieved_documents = [],
      verified_documents = verified, reranked_documents = []\<rparr>"

section \<open>Properties\<close>

subsection \<open>Evaluation on concrete inputs\<close>

lemmas stats_eval =
  calculate_sub_question_retrieval_stats_def chunk_scores_def doc_chunk_id_def str_int_def
  str_nat.simps digit_char_def stats_step_def np_mean_def raw_chunk_stats_init_def
  retrieved_of_def identity_key_def has_score_def without_key_def scored_only_def

lemmas node_eval =
  expanded_retrieval_def expand_queries_def doc_retrieval_def doc_verification_def
  doc_reranking_def format_results_def verification_kickoff_def retrieval_input_def
  retrieved_state_def question_or_original_def merged_stream_content_def
  level_and_question_nr_def pre_rerank_docs_def reranking_configured_def py_take_def strip_def
  lstrip_def rstrip_def drop_units.simps leading_unit_def whitespace_def lower_def
  lower_char_def decode_question_id_def py_int_def is_digit_def
  digits_value_def example_llm_def example_tool_def example_deps_def example_input_def
  example_state_def example_task_def inventing_deps_def

lemmas common_eval = example_doc_def Let_def char_of_def bit_iff_odd

subsection \<open>The rendered key determines the identity\<close>

lemma of_char_digit_char: "d < 10 \<Longrightarrow> (of_char (digit_char d) :: nat) = 48 + d"
  by (simp add: digit_char_def)

lemma digit_char_not_sep: "d < 10 \<Longrightarrow> digit_char d \<noteq> CHR ''_'' \<and> digit_char d \<noteq> CHR ''-''"
proof
  assume d: "d < 10"
  show "digit_char d \<noteq> CHR ''_''"
  proof
    assume "digit_char d = CHR ''_''"
    then have "(of_char (digit_char d) :: nat) = of_char CHR ''_''" by simp
    with d show False by (simp add: of_char_digit_char)
  qed
  show "digit_char d \<noteq> CHR ''-''"
  proof
    assume "digit_char d = CHR ''-''"
    then have "(of_char (digit_char d) :: nat) = of_char CHR ''-''" by simp
    with d show False by (simp add: of_char_digit_char)
  qed
qed

lemma digit_char_inj:
  assumes "a < 10" and "b < 10" and "digit_char a = digit_char b"
  shows "a = b"
proof -
  have "(of_char (digit_char a) :: nat) = of_char (digit_char b)"
    using assms(3) by (rule arg_cong)
  then have "48 + a = 48 + b"
    by (simp only: of_char_digit_char [OF assms(1)] of_char_digit_char [OF assms(2)])
  then show ?thesis by simp
qed

lemma str_nat_nonempty: "str_nat n \<noteq> []"
  by (subst str_nat.simps) simp

lemma str_nat_chars: "c \<in> set (str_nat n) \<Longrightarrow> c \<noteq> CHR ''_'' \<and> c \<noteq> CHR ''-''"
proof (induction n rule: str_nat.induct)
  case (1 n)
  show ?case
  proof (cases "n < 10")
    case True
    with "1.prems" show ?thesis
      by (subst (asm) str_nat.simps) (simp add: digit_char_not_sep)
  next
    case False
    with "1.prems" have "c \<in> set (str_nat (n div 10)) \<or> c = digit_char (n mod 10)"
      by (subst (asm) str_nat.simps) auto
    then show ?thesis
      using "1.IH" False digit_char_not_sep [of "n mod 10"] by auto
  qed
qed

lemma str_nat_inj: "str_nat n = str_nat m \<Longrightarrow> n = m"
proof (induction n arbitrary: m rule: str_nat.induct)
  case (1 n)
  show ?case
  proof (cases "n < 10")
    case n: True
    show ?thesis
    proof (cases "m < 10")
      case True
      with n "1.prems" show ?thesis
        by (simp add: str_nat.simps [of n] str_nat.simps [of m] digit_char_inj)
    next
      case False
      with n "1.prems" show ?thesis
        using str_nat_nonempty [of "m div 10"]
        by (simp add: str_nat.simps [of n] str_nat.simps [of m])
    qed
  next
    case n: False
    show ?thesis
    proof (cases "m < 10")
      case True
      with n "1.prems" show ?thesis
        using str_nat_nonempty [of "n div 10"]
        by (simp add: str_nat.simps [of n] str_nat.simps [of m])
    next
      case False
      with n "1.prems" have e: "str_nat (n div 10) = str_nat (m div 10)"
        and d: "digit_char (n mod 10) = digit_char (m mod 10)"
        by (simp_all add: str_nat.simps [of n] str_nat.simps [of m])
      from "1.IH" [OF n e] have "n div 10 = m div 10" .
      moreover from d have "n mod 10 = m mod 10"
        by (intro digit_char_inj) simp_all
      ultimately show ?thesis
        by (metis div_mult_mod_eq)
    qed
  qed
qed

lemma str_int_chars: "CHR ''_'' \<notin> set (str_int i)"
  using str_nat_chars by (auto simp: str_int_def)

lemma str_nat_no_minus: "CHR ''-'' # s \<noteq> str_nat n"
proof
  assume "CHR ''-'' # s = str_nat n"
  then have "CHR ''-'' \<in> set (str_nat n)"
    by (metis list.set_intros(1))
  then show False using str_nat_chars by blast
qed

lemma str_int_inj:
  assumes "str_int i = str_int j"
  shows "i = j"
proof (cases "i < 0")
  case i: True
  show ?thesis
  proof (cases "j < 0")
    case True
    with i assms have "str_nat (nat (- i)) = str_nat (nat (- j))"
      by (simp add: str_int_def)
    then have "nat (- i) = nat (- j)" by (rule str_nat_inj)
    with i True show ?thesis by simp
  next
    case False
    with i assms have "CHR ''-'' # str_nat (nat (- i)) = str_nat (nat j)"
      by (simp add: str_int_def)
    then show ?thesis using str_nat_no_minus by blast
  qed
next
  case i: False
  show ?thesis
  proof (cases "j < 0")
    case True
    with i assms have "CHR ''-'' # str_nat (nat (- j)) = str_nat (nat i)"
      by (simp add: str_int_def)
    then show ?thesis using str_nat_no_minus by blast
  next
    case False
    with i assms have "str_nat (nat i) = str_nat (nat j)"
      by (simp add: str_int_def)
    then have "nat i = nat j" by (rule str_nat_inj)
    with i False show ?thesis by simp
  qed
qed

lemma sep_split_unique:
  "CHR ''_'' \<notin> set s \<Longrightarrow> CHR ''_'' \<notin> set t \<Longrightarrow> a @ CHR ''_'' # s = b @ CHR ''_'' # t \<Longrightarrow> a = b \<and> s = t"
proof (induction a arbitrary: b)
  case Nil
  then show ?case by (cases b) auto
next
  case (Cons x a)
  then show ?case by (cases b) auto
qed

lemma doc_chunk_id_inj: "doc_chunk_id d = doc_chunk_id e \<longleftrightarrow> identity_key d = identity_key e"
proof
  assume "doc_chunk_id d = doc_chunk_id e"
  then have "document_id (center_chunk d) @ CHR ''_'' # str_int (chunk_id (center_chunk d))
      = document_id (center_chunk e) @ CHR ''_'' # str_int (chunk_id (center_chunk e))"
    by (simp add: doc_chunk_id_def)
  from sep_split_unique [OF str_int_chars str_int_chars this]
  show "identity_key d = identity_key e"
    by (simp add: identity_key_def str_int_inj)
next
  assume "identity_key d = identity_key e"
  then show "doc_chunk_id d = doc_chunk_id e"
    by (simp add: identity_key_def doc_chunk_id_def)
qed


subsection \<open>The dictionary of scores\<close>

lemma append_score_keys:
  "map fst (append_score cs k v) = (if k \<in> set (map fst cs) then map fst cs else map fst cs @ [k])"
  by (induction cs k v rule: append_score.induct) auto

lemma append_score_nonempty:
  "\<forall>item \<in> set cs. snd item \<noteq> [] \<Longrightarrow> \<forall>item \<in> set (append_score cs k v). snd item \<noteq> []"
  by (induction cs k v rule: append_score.induct) auto

lemma collect_scores_keys:
  "distinct (map fst cs) \<Longrightarrow>
   distinct (map fst (collect_scores cs docs)) \<and>
   set (map fst (collect_scores cs docs)) = set (map fst cs) \<union> doc_chunk_id ` set (filter has_score docs)"
proof (induction docs arbitrary: cs)
  case Nil
  then show ?case by simp
next
  case (Cons doc docs)
  show ?case
  proof (cases "score (center_chunk doc)")
    case None
    with Cons show ?thesis by (simp add: has_score_def)
  next
    case (Some v)
    from Cons.prems have "distinct (map fst (append_score cs (doc_chunk_id doc) v))"
      by (simp add: append_score_keys)
    from Cons.IH [OF this] Some show ?thesis
      by (auto simp: has_score_def append_score_keys split: if_splits)
  qed
qed

lemma collect_scores_filter: "collect_scores cs (filter has_score docs) = collect_scores cs docs"
  by (induction docs arbitrary: cs) (auto simp: has_score_def split: option.splits)

lemma collect_scores_nonempty:
  "\<forall>item \<in> set cs. snd item \<noteq> [] \<Longrightarrow> \<forall>item \<in> set (collect_scores cs docs). snd item \<noteq> []"
proof (induction docs arbitrary: cs)
  case Nil
  then show ?case by simp
next
  case (Cons doc docs)
  show ?case
  proof (cases "score (center_chunk doc)")
    case None
    with Cons show ?thesis by simp
  next
    case (Some v)
    from Cons.prems have "\<forall>item \<in> set (append_score cs (doc_chunk_id doc) v). snd item \<noteq> []"
      by (rule append_score_nonempty)
    from Cons.IH [OF this] Some show ?thesis by simp
  qed
qed

lemma chunk_scores_nonempty: "item \<in> set (chunk_scores qrs) \<Longrightarrow> snd item \<noteq> []"
  using collect_scores_nonempty [of "[]"] by (auto simp: chunk_scores_def)

lemma chunk_scores_distinct: "distinct (map fst (chunk_scores qrs))"
  using collect_scores_keys [of "[]"] by (simp add: chunk_scores_def)

lemma chunk_scores_keys:
  "set (map fst (chunk_scores qrs)) = doc_chunk_id ` set (filter has_score (retrieved_of qrs))"
  using collect_scores_keys [of "[]"] by (simp add: chunk_scores_def retrieved_of_def)

lemma stats_loop_counts:
  "raw_verified_count (stats_loop ids acc items) + raw_rejected_count (stats_loop ids acc items)
   = raw_verified_count acc + raw_rejected_count acc + int (length items)"
  by (induction items arbitrary: acc) (auto simp: stats_step_def Let_def)

lemma stats_loop_rejected:
  "0 \<le> raw_rejected_count acc \<Longrightarrow> (raw_rejected_scores acc \<noteq> None \<longrightarrow> 0 < raw_rejected_count acc) \<Longrightarrow>
   0 \<le> raw_rejected_count (stats_loop ids acc items) \<and>
   (raw_rejected_scores (stats_loop ids acc items) \<noteq> None \<longrightarrow> 0 < raw_rejected_count (stats_loop ids acc items))"
  by (induction items arbitrary: acc) (auto simp: stats_step_def Let_def)

lemma stats_loop_dismissed:
  "raw_dismissed (stats_loop ids acc items) = raw_dismissed acc @ filter (\<lambda>k. k \<notin> set ids) (map fst items)"
  by (induction items arbitrary: acc) (auto simp: stats_step_def Let_def)

lemma calculate_stats_total:
  "\<exists>s. calculate_sub_question_retrieval_stats vs qrs = Inr s"
  using stats_loop_rejected [of raw_chunk_stats_init "map doc_chunk_id vs" "chunk_scores qrs"]
  by (auto simp: calculate_sub_question_retrieval_stats_def Let_def raw_chunk_stats_init_def split: option.splits)

lemma calculate_stats_fields:
  assumes "calculate_sub_question_retrieval_stats vs qrs = Inr s"
  shows "verified_count s = raw_verified_count (stats_loop (map doc_chunk_id vs) raw_chunk_stats_init (chunk_scores qrs))"
    and "rejected_count s = raw_rejected_count (stats_loop (map doc_chunk_id vs) raw_chunk_stats_init (chunk_scores qrs))"
    and "verified_doc_chunk_ids s = map doc_chunk_id vs"
    and "dismissed_doc_chunk_ids s = raw_dismissed (stats_loop (map doc_chunk_id vs) raw_chunk_stats_init (chunk_scores qrs))"
  using assms
  by (auto simp: calculate_sub_question_retrieval_stats_def Let_def split: option.splits if_splits)

lemma card_keys:
  "card (doc_chunk_id ` set docs) = card (identity_key ` set docs)"
proof -
  have "inj_on (\<lambda>k. fst k @ ''_'' @ str_int (snd k)) (identity_key ` set docs)"
    using doc_chunk_id_inj by (auto simp: inj_on_def doc_chunk_id_def identity_key_def)
  then have "card ((\<lambda>k. fst k @ ''_'' @ str_int (snd k)) ` identity_key ` set docs) = card (identity_key ` set docs)"
    by (rule card_image)
  moreover have "(\<lambda>k. fst k @ ''_'' @ str_int (snd k)) ` identity_key ` set docs = doc_chunk_id ` set docs"
    by (auto simp: doc_chunk_id_def identity_key_def image_iff)
  ultimately show ?thesis by simp
qed


lemma collect_scores_drop_unscored:
  "\<forall>doc \<in> set docs. \<not> keep doc \<longrightarrow> \<not> has_score doc \<Longrightarrow>
   collect_scores cs (filter keep docs) = collect_scores cs docs"
  by (induction docs arbitrary: cs) (auto simp: has_score_def split: option.splits)

lemma retrieved_of_without_key:
  "retrieved_of (map (without_key key) qrs) = filter (\<lambda>doc. identity_key doc \<noteq> key) (retrieved_of qrs)"
  by (induction qrs) (simp_all add: retrieved_of_def without_key_def)

lemma retrieved_of_scored_only:
  "retrieved_of (map scored_only qrs) = filter has_score (retrieved_of qrs)"
  by (induction qrs) (simp_all add: retrieved_of_def scored_only_def)

lemma chunk_scores_retrieved_of: "chunk_scores qrs = collect_scores [] (retrieved_of qrs)"
  by (simp add: chunk_scores_def retrieved_of_def)

lemma calculate_stats_cong:
  "chunk_scores qrs' = chunk_scores qrs \<Longrightarrow>
   calculate_sub_question_retrieval_stats vs qrs' = calculate_sub_question_retrieval_stats vs qrs"
  by (simp add: calculate_sub_question_retrieval_stats_def)

subsection \<open>Chunk statistics\<close>

text \<open>
  C1 (as amended). The aggregator always returns, and \<open>verified_count + rejected_count\<close>
  is the number of distinct (document_id, chunk_id) identities among the retrieved
  documents that carry a score. Documents without a score never enter the dictionary of
  line 295 and are not counted.
\<close>

theorem stats_counts_scored_keys:
  "\<exists>s. calculate_sub_question_retrieval_stats vs qrs = Inr s \<and>
     verified_count s + rejected_count s =
       int (card (identity_key ` set (filter has_score (retrieved_of qrs))))"
proof -
  obtain s where s: "calculate_sub_question_retrieval_stats vs qrs = Inr s"
    using calculate_stats_total by blast
  have "verified_count s + rejected_count s = int (length (chunk_scores qrs))"
    by (simp add: calculate_stats_fields [OF s] stats_loop_counts raw_chunk_stats_init_def)
  also have "length (chunk_scores qrs) = card (set (map fst (chunk_scores qrs)))"
    using distinct_card [OF chunk_scores_distinct [of qrs]] by simp
  also have "\<dots> = card (identity_key ` set (filter has_score (retrieved_of qrs)))"
    by (simp only: chunk_scores_keys card_keys)
  finally show ?thesis using s by blast
qed

text \<open>Scenario A of the specification: two queries with three scored documents each, one
  identity retrieved by both, two documents verified.\<close>

theorem stats_counts_scored_keys_witness:
  "calculate_sub_question_retrieval_stats
     [example_doc ''a'' 0 (Some 1), example_doc ''d'' 0 (Some 4)]
     [\<lparr>query = ''refund policy'',
       search_results =
         [example_doc ''a'' 0 (Some 1), example_doc ''b'' 0 (Some 2), example_doc ''c'' 0 (Some 3)],
       stats = None\<rparr>,
      \<lparr>query = ''return policy timeframe'',
       search_results =
         [example_doc ''c'' 0 (Some 5), example_doc ''d'' 0 (Some 4), example_doc ''e'' 0 (Some 6)],
       stats = None\<rparr>]
   = Inr \<lparr>verified_count = 2, verified_avg_scores = 5 / 2, rejected_count = 3,
          rejected_avg_scores = Some 4, verified_doc_chunk_ids = [''a_0'', ''d_0''],
          dismissed_doc_chunk_ids = [''b_0'', ''c_0'', ''e_0'']\<rparr>
   \<and> card (identity_key ` set (filter has_score (retrieved_of
        [\<lparr>query = ''refund policy'',
          search_results =
            [example_doc ''a'' 0 (Some 1), example_doc ''b'' 0 (Some 2), example_doc ''c'' 0 (Some 3)],
          stats = None\<rparr>,
         \<lparr>query = ''return policy timeframe'',
          search_results =
            [example_doc ''c'' 0 (Some 5), example_doc ''d'' 0 (Some 4), example_doc ''e'' 0 (Some 6)],
          stats = None\<rparr>]))) = 5"
  using stats_counts_scored_keys
    [of "[example_doc ''a'' 0 (Some 1), example_doc ''d'' 0 (Some 4)]"
        "[\<lparr>query = ''refund policy'',
           search_results =
             [example_doc ''a'' 0 (Some 1), example_doc ''b'' 0 (Some 2), example_doc ''c'' 0 (Some 3)],
           stats = None\<rparr>,
          \<lparr>query = ''return policy timeframe'',
           search_results =
             [example_doc ''c'' 0 (Some 5), example_doc ''d'' 0 (Some 4), example_doc ''e'' 0 (Some 6)],
           stats = None\<rparr>]"]
  by (simp add: stats_eval common_eval)

text \<open>C1 as stated fails: one retrieved document without a score is one observed
  identity, and both counts are zero.\<close>

theorem stats_counts_all_keys_counterexample:
  "calculate_sub_question_retrieval_stats []
     [\<lparr>query = ''q'', search_results = [example_doc ''a'' 1 None], stats = None\<rparr>]
   = Inr \<lparr>verified_count = 0, verified_avg_scores = 0, rejected_count = 0,
          rejected_avg_scores = None, verified_doc_chunk_ids = [],
          dismissed_doc_chunk_ids = []\<rparr>
   \<and> card (identity_key ` set (retrieved_of
        [\<lparr>query = ''q'', search_results = [example_doc ''a'' 1 None], stats = None\<rparr>])) = 1"
  by (simp add: stats_eval common_eval)

text \<open>
  C10. \<open>verified_doc_chunk_ids\<close> is the list of the rendered keys of the verified
  documents, one per document, in order, duplicates and unscored documents included.
  An identity whose every retrieved occurrence has no score leaves no trace in the
  statistics: deleting its documents from the query results (or deleting all unscored
  documents) gives the same statistics, and its key is not among the dismissed keys.
\<close>

theorem stats_ignore_unscored_keys:
  assumes "\<forall>doc \<in> set (retrieved_of qrs). identity_key doc = key \<longrightarrow> \<not> has_score doc"
  shows "\<exists>s. calculate_sub_question_retrieval_stats vs qrs = Inr s \<and>
     verified_doc_chunk_ids s = map doc_chunk_id vs \<and>
     calculate_sub_question_retrieval_stats vs (map (without_key key) qrs) = Inr s \<and>
     calculate_sub_question_retrieval_stats vs (map scored_only qrs) = Inr s \<and>
     (\<forall>doc. identity_key doc = key \<longrightarrow> doc_chunk_id doc \<notin> set (dismissed_doc_chunk_ids s))"
proof -
  obtain s where s: "calculate_sub_question_retrieval_stats vs qrs = Inr s"
    using calculate_stats_total by blast
  have "chunk_scores (map (without_key key) qrs) = chunk_scores qrs"
    using assms
    by (simp add: chunk_scores_retrieved_of retrieved_of_without_key collect_scores_drop_unscored)
  from calculate_stats_cong [OF this, of vs] s
  have a: "calculate_sub_question_retrieval_stats vs (map (without_key key) qrs) = Inr s"
    by simp
  have "chunk_scores (map scored_only qrs) = chunk_scores qrs"
    by (simp add: chunk_scores_retrieved_of retrieved_of_scored_only collect_scores_filter)
  from calculate_stats_cong [OF this, of vs] s
  have b: "calculate_sub_question_retrieval_stats vs (map scored_only qrs) = Inr s"
    by simp
  have c: "doc_chunk_id doc \<notin> set (dismissed_doc_chunk_ids s)" if k: "identity_key doc = key" for doc
  proof
    assume "doc_chunk_id doc \<in> set (dismissed_doc_chunk_ids s)"
    then have "doc_chunk_id doc \<in> set (map fst (chunk_scores qrs))"
      by (simp add: calculate_stats_fields(4) [OF s] stats_loop_dismissed raw_chunk_stats_init_def)
    then have "doc_chunk_id doc \<in> doc_chunk_id ` set (filter has_score (retrieved_of qrs))"
      by (simp only: chunk_scores_keys)
    then obtain doc' where d: "doc' \<in> set (filter has_score (retrieved_of qrs))"
        and e: "doc_chunk_id doc = doc_chunk_id doc'"
      by (rule imageE)
    from e k have "identity_key doc' = key" by (simp add: doc_chunk_id_inj)
    moreover from d have "doc' \<in> set (retrieved_of qrs)" and "has_score doc'" by simp_all
    ultimately show False using assms by blast
  qed
  show ?thesis
  proof (intro exI conjI allI impI)
    show "calculate_sub_question_retrieval_stats vs qrs = Inr s" by (rule s)
    show "verified_doc_chunk_ids s = map doc_chunk_id vs" by (rule calculate_stats_fields(3) [OF s])
    show "calculate_sub_question_retrieval_stats vs (map (without_key key) qrs) = Inr s" by (rule a)
    show "calculate_sub_question_retrieval_stats vs (map scored_only qrs) = Inr s" by (rule b)
    show "doc_chunk_id doc \<notin> set (dismissed_doc_chunk_ids s)" if "identity_key doc = key" for doc
      using that by (rule c)
  qed
qed

theorem stats_ignore_unscored_keys_witness:
  "calculate_sub_question_retrieval_stats
     [example_doc ''x'' 7 None, example_doc ''x'' 7 None]
     [\<lparr>query = ''q'',
       search_results = [example_doc ''x'' 7 None, example_doc ''a'' 1 (Some (1 / 2))],
       stats = None\<rparr>]
   = Inr \<lparr>verified_count = 0, verified_avg_scores = 0, rejected_count = 1,
          rejected_avg_scores = Some (1 / 2), verified_doc_chunk_ids = [''x_7'', ''x_7''],
          dismissed_doc_chunk_ids = [''a_1'']\<rparr>
   \<and> calculate_sub_question_retrieval_stats
     [example_doc ''x'' 7 None, example_doc ''x'' 7 None]
     (map (without_key (''x'', 7))
       [\<lparr>query = ''q'',
         search_results = [example_doc ''x'' 7 None, example_doc ''a'' 1 (Some (1 / 2))],
         stats = None\<rparr>])
   = Inr \<lparr>verified_count = 0, verified_avg_scores = 0, rejected_count = 1,
          rejected_avg_scores = Some (1 / 2), verified_doc_chunk_ids = [''x_7'', ''x_7''],
          dismissed_doc_chunk_ids = [''a_1'']\<rparr>"
proof -
  have h: "\<forall>doc \<in> set (retrieved_of
        [\<lparr>query = ''q'',
          search_results = [example_doc ''x'' 7 None, example_doc ''a'' 1 (Some (1 / 2))],
          stats = None\<rparr>]).
      identity_key doc = (''x'', 7) \<longrightarrow> \<not> has_score doc"
    by (simp add: stats_eval common_eval)
  from stats_ignore_unscored_keys [OF h, of "[example_doc ''x'' 7 None, example_doc ''x'' 7 None]"]
  show ?thesis by (simp add: stats_eval common_eval)
qed

subsection \<open>Strings\<close>

lemma split_nonempty: "split sep s \<noteq> []"
  by (induction s) (auto split: list.splits)

lemma startswith_iff: "startswith s p \<longleftrightarrow> (\<exists>post. s = p @ post)"
  by (induction s p rule: startswith.induct) auto

lemma leading_unit_Some:
  assumes "leading_unit units s = Some w"
  shows "w \<in> set units" and "w \<noteq> []" and "s = w @ drop (length w) s"
proof -
  from assms have "w \<in> set units \<and> w \<noteq> [] \<and> startswith s w"
    by (auto simp: leading_unit_def find_Some_iff)
  then show "w \<in> set units" and "w \<noteq> []" and "s = w @ drop (length w) s"
    by (auto simp: startswith_iff)
qed

lemma whitespace_leading:
  "\<forall>w \<in> set whitespace. leading_unit whitespace (w @ rest) = Some w"
  by (simp add: whitespace_def leading_unit_def)

lemma whitespace_trailing:
  "\<forall>w \<in> set (map rev whitespace). leading_unit (map rev whitespace) (w @ rest) = Some w"
  by (simp add: whitespace_def leading_unit_def)

lemma drop_units_concat:
  assumes "\<And>w rest. w \<in> set units \<Longrightarrow> leading_unit units (w @ rest) = Some w"
    and "set ws \<subseteq> set units"
  shows "drop_units units (concat ws @ rest) = drop_units units rest"
  using assms(2)
proof (induction ws)
  case Nil
  then show ?case by simp
next
  case (Cons w ws)
  then have "leading_unit units (w @ concat ws @ rest) = Some w"
    using assms(1) by simp
  then have "drop_units units (concat (w # ws) @ rest) = drop_units units (concat ws @ rest)"
    by (subst drop_units.simps) simp
  with Cons show ?case by simp
qed

lemma drop_units_fixed: "leading_unit units (drop_units units s) = None"
proof (induction units s rule: drop_units.induct)
  case (1 units s)
  show ?case
  proof (cases "leading_unit units s")
    case None
    then show ?thesis by (subst drop_units.simps) simp
  next
    case (Some w)
    with "1.IH" show ?thesis by (subst drop_units.simps) simp
  qed
qed

lemma drop_units_Nil:
  "drop_units units s = [] \<Longrightarrow> \<exists>ws. set ws \<subseteq> set units \<and> s = concat ws"
proof (induction units s rule: drop_units.induct)
  case (1 units s)
  show ?case
  proof (cases "leading_unit units s")
    case None
    with "1.prems" have "s = []" by (subst (asm) drop_units.simps) simp
    then have "set [] \<subseteq> set units \<and> s = concat []" by simp
    then show ?thesis by blast
  next
    case (Some w)
    with "1.prems" have "drop_units units (drop (length w) s) = []"
      by (subst (asm) drop_units.simps) simp
    from "1.IH" [OF Some this] obtain ws where
      ws: "set ws \<subseteq> set units" "drop (length w) s = concat ws" by blast
    from leading_unit_Some [OF Some] ws have "set (w # ws) \<subseteq> set units \<and> s = concat (w # ws)"
      by simp
    then show ?thesis by blast
  qed
qed

lemma strip_whitespace_only:
  assumes "set ws \<subseteq> set whitespace"
  shows "strip (concat ws) = []"
proof -
  have "drop_units whitespace (concat ws @ []) = drop_units whitespace []"
    using whitespace_leading assms by (intro drop_units_concat) auto
  then have "lstrip (concat ws) = []"
    by (simp add: lstrip_def drop_units.simps [of _ "[]"] leading_unit_def whitespace_def)
  then show ?thesis
    by (simp add: strip_def rstrip_def drop_units.simps [of _ "[]"] leading_unit_def whitespace_def)
qed

lemma strip_Nil_whitespace_only:
  assumes "strip s = []"
  shows "\<exists>ws. set ws \<subseteq> set whitespace \<and> s = concat ws"
proof -
  from assms have "drop_units (map rev whitespace) (rev (lstrip s)) = []"
    by (simp add: strip_def rstrip_def)
  from drop_units_Nil [OF this] obtain rs where
    rs: "set rs \<subseteq> set (map rev whitespace)" "rev (lstrip s) = concat rs" by blast
  define us where "us = map rev (rev rs)"
  from rs(1) have us: "set us \<subseteq> set whitespace"
    by (auto simp: us_def)
  from rs(2) have "rev (rev (lstrip s)) = rev (concat rs)" by simp
  then have l: "lstrip s = concat us"
    by (simp add: us_def rev_concat)
  have "lstrip s = []"
  proof (cases us)
    case Nil
    with l show ?thesis by simp
  next
    case (Cons u us')
    with us l have "u \<in> set whitespace" and "lstrip s = u @ concat us'" by simp_all
    with whitespace_leading have "leading_unit whitespace (lstrip s) = Some u" by simp
    moreover have "leading_unit whitespace (lstrip s) = None"
      unfolding lstrip_def by (rule drop_units_fixed)
    ultimately show ?thesis by simp
  qed
  then show ?thesis unfolding lstrip_def by (rule drop_units_Nil)
qed

lemma strip_blank_iff: "strip s = [] \<longleftrightarrow> (\<exists>ws. set ws \<subseteq> set whitespace \<and> s = concat ws)"
  using strip_Nil_whitespace_only strip_whitespace_only by blast

lemma py_in_iff: "py_in sub s \<longleftrightarrow> (\<exists>pre post. s = pre @ sub @ post)"
proof (induction s)
  case Nil
  then show ?case by auto
next
  case (Cons c cs)
  show ?case
  proof
    assume "py_in sub (c # cs)"
    then consider "startswith (c # cs) sub" | "py_in sub cs" by auto
    then show "\<exists>pre post. c # cs = pre @ sub @ post"
    proof cases
      case 1
      then obtain post where "c # cs = sub @ post" using startswith_iff by blast
      then have "c # cs = [] @ sub @ post" by simp
      then show ?thesis by blast
    next
      case 2
      with Cons obtain pre post where "cs = pre @ sub @ post" by blast
      then have "c # cs = (c # pre) @ sub @ post" by simp
      then show ?thesis by blast
    qed
  next
    assume "\<exists>pre post. c # cs = pre @ sub @ post"
    then obtain pre post where e: "c # cs = pre @ sub @ post" by blast
    show "py_in sub (c # cs)"
    proof (cases pre)
      case Nil
      with e have "startswith (c # cs) sub" using startswith_iff by auto
      then show ?thesis by simp
    next
      case (Cons x pre')
      with e have "cs = pre' @ sub @ post" by simp
      with Cons.IH have "py_in sub cs" by blast
      then show ?thesis by simp
    qed
  qed
qed

lemma genuine_sections_iff: "doc \<in> set (genuine_sections objs) \<longleftrightarrow> Section doc \<in> set objs"
  by (induction objs rule: genuine_sections.induct) auto

lemma genuine_sections_map: "genuine_sections (map Section docs) = docs"
  by (induction docs) auto

lemma set_py_take: "set (py_take n xs) \<subseteq> set xs"
  by (auto simp: py_take_def dest: in_set_takeD)

lemma length_py_take: "0 \<le> n \<Longrightarrow> int (length (py_take n xs)) \<le> n"
  by (simp add: py_take_def)

subsection \<open>Retrieval\<close>

text \<open>
  C2 (as amended). For a blank query, that is a query made only of whitespace code
  points (the empty query included), \<^verbatim>\<open>doc_retrieval\<close> returns at once with an empty
  update fragment: no \<open>QueryResult\<close> and no retrieved document. Its list of effects is
  empty: the search tool is not run and no event is emitted.
\<close>

theorem doc_retrieval_blank:
  assumes "query_to_retrieve state = concat ws" and "set ws \<subseteq> set whitespace"
  shows "doc_retrieval env state =
           ([], Inr \<lparr>upd_expanded_retrieval_results = [], upd_retrieved_documents = []\<rparr>)"
proof -
  from assms have "strip (query_to_retrieve state) = []"
    by (simp add: strip_whitespace_only)
  then show ?thesis by (simp add: doc_retrieval_def)
qed

text \<open>A query of a space, a no-break space (U+00A0), an ideographic space (U+3000) and
  a line feed.\<close>

theorem doc_retrieval_blank_witness:
  "doc_retrieval example_deps
     (retrieval_input (example_input (Some ''session'') None None)
        [CHR 0x20, CHR 0xC2, CHR 0xA0, CHR 0xE3, CHR 0x80, CHR 0x80, CHR 0x0A])
     = ([], Inr \<lparr>upd_expanded_retrieval_results = [], upd_retrieved_documents = []\<rparr>)"
proof -
  have a: "query_to_retrieve
      (retrieval_input (example_input (Some ''session'') None None)
         [CHR 0x20, CHR 0xC2, CHR 0xA0, CHR 0xE3, CHR 0x80, CHR 0x80, CHR 0x0A])
      = concat [[CHR 0x20], [CHR 0xC2, CHR 0xA0], [CHR 0xE3, CHR 0x80, CHR 0x80], [CHR 0x0A]]"
    by (simp add: retrieval_input_def)
  have b: "set [[CHR 0x20], [CHR 0xC2, CHR 0xA0], [CHR 0xE3, CHR 0x80, CHR 0x80], [CHR 0x0A]]
      \<subseteq> set whitespace"
    by (simp add: whitespace_def)
  from doc_retrieval_blank [OF a b] show ?thesis .
qed

text \<open>C2 as stated asks for an empty \<open>QueryResult\<close> for the blank query; the fragment
  returned holds no \<open>QueryResult\<close> at all.\<close>

theorem doc_retrieval_blank_counterexample:
  "strip ''  '' = [] \<and>
   snd (doc_retrieval example_deps
          (retrieval_input (example_input (Some ''session'') None None) ''  ''))
     = Inr \<lparr>upd_expanded_retrieval_results = [], upd_retrieved_documents = []\<rparr> \<and>
   \<lparr>query = ''  '', search_results = [], stats = None\<rparr> \<notin>
     set (upd_expanded_retrieval_results
            \<lparr>upd_expanded_retrieval_results = [], upd_retrieved_documents = []\<rparr>)"
  by (simp add: node_eval common_eval)

text \<open>
  C7. For a query that is not blank, whenever the loop over the responses of the search
  tool returns, \<^verbatim>\<open>doc_retrieval\<close> returns one \<open>QueryResult\<close> with the truncated list: the
  first \<^verbatim>\<open>AGENT_MAX_QUERY_RETRIEVAL_RESULTS\<close> documents of the summary (for a negative
  constant, all but that many of the last). With \<^verbatim>\<open>AGENT_RETRIEVAL_STATS\<close> off its stats
  are \<open>None\<close>. With the flag on they are \<^verbatim>\<open>get_fit_scores\<close> of the candidate sections of the
  search pipeline against the truncated list; when the tool has no pipeline, or the
  pipeline's candidate list is \<^verbatim>\<open>None\<close> or empty, they are \<^verbatim>\<open>get_fit_scores\<close> of the
  truncated list against itself. Computing the stats adds no error of its own.
\<close>

theorem doc_retrieval_stats:
  assumes "strip (query_to_retrieve state) \<noteq> []"
    and "retrieval_loop env (sub_question_id state)
           (run (subgraph_search_tool state) (query_to_retrieve state)) []
           [SearchToolRun (query_to_retrieve state)] = (effs, Inr docs)"
  shows "\<exists>retrieved fit.
     doc_retrieval env state =
       (effs,
        Inr \<lparr>upd_expanded_retrieval_results =
               [\<lparr>query = query_to_retrieve state, search_results = retrieved, stats = fit\<rparr>],
             upd_retrieved_documents = retrieved\<rparr>) \<and>
     (0 \<le> AGENT_MAX_QUERY_RETRIEVAL_RESULTS env \<longrightarrow>
        retrieved = take (nat (AGENT_MAX_QUERY_RETRIEVAL_RESULTS env)) docs) \<and>
     (AGENT_MAX_QUERY_RETRIEVAL_RESULTS env < 0 \<longrightarrow>
        retrieved = take (length docs - nat (- AGENT_MAX_QUERY_RETRIEVAL_RESULTS env)) docs) \<and>
     (\<not> AGENT_RETRIEVAL_STATS env \<longrightarrow> fit = None) \<and>
     (AGENT_RETRIEVAL_STATS env \<longrightarrow>
        (\<forall>pipeline candidates.
           search_pipeline (subgraph_search_tool state) = Some pipeline \<and>
           retrieved_sections pipeline = Some candidates \<and> candidates \<noteq> [] \<longrightarrow>
           fit = get_fit_scores env (map Section candidates) (map Section retrieved)) \<and>
        (search_pipeline (subgraph_search_tool state) = None \<or>
         (\<exists>pipeline. search_pipeline (subgraph_search_tool state) = Some pipeline \<and>
            (retrieved_sections pipeline = None \<or> retrieved_sections pipeline = Some [])) \<longrightarrow>
           fit = get_fit_scores env (map Section retrieved) (map Section retrieved)))"
proof -
  have t: "py_take n docs =
      (if 0 \<le> n then take (nat n) docs else take (length docs - nat (- n)) docs)" for n
    by (auto simp: py_take_def intro: arg_cong [where f = "\<lambda>k. take k docs"])
  show ?thesis
    using assms
    by (auto simp: doc_retrieval_def Let_def pre_rerank_docs_def t split: option.splits)
qed

text \<open>A tool without a pipeline and a cap of 10 on two documents (the two lists compared
  are the same, lift 0); and a cap of 1 with a pipeline that exposes three candidates
  (one document kept, lift 2 with the example \<open>get_fit_scores\<close>).\<close>

theorem doc_retrieval_stats_witness:
  "doc_retrieval example_deps (retrieval_input (example_input (Some ''session'') None None) ''q'')
     = ([SearchToolRun ''q'',
         ToolResponseEvent ''summary''
           (SearchResponseSummary [example_doc ''a'' 1 (Some 1), example_doc ''b'' 2 None]) 0 0],
        Inr \<lparr>upd_expanded_retrieval_results =
               [\<lparr>query = ''q'',
                 search_results = [example_doc ''a'' 1 (Some 1), example_doc ''b'' 2 None],
                 stats = Some \<lparr>fit_score_lift = 0, rerank_effect = 0, fit_scores = []\<rparr>\<rparr>],
             upd_retrieved_documents = [example_doc ''a'' 1 (Some 1), example_doc ''b'' 2 None]\<rparr>)
   \<and> snd (doc_retrieval (example_deps\<lparr>AGENT_MAX_QUERY_RETRIEVAL_RESULTS := 1\<rparr>)
        ((retrieval_input (example_input (Some ''session'') None None) ''q'')
           \<lparr>subgraph_search_tool :=
              example_tool\<lparr>search_pipeline :=
                Some \<lparr>retrieved_sections =
                  Some [example_doc ''a'' 1 (Some 1), example_doc ''b'' 2 None,
                        example_doc ''c'' 3 (Some 2)]\<rparr>\<rparr>\<rparr>))
     = Inr \<lparr>upd_expanded_retrieval_results =
               [\<lparr>query = ''q'',
                 search_results = [example_doc ''a'' 1 (Some 1)],
                 stats = Some \<lparr>fit_score_lift = 2, rerank_effect = 0, fit_scores = []\<rparr>\<rparr>],
             upd_retrieved_documents = [example_doc ''a'' 1 (Some 1)]\<rparr>"
proof -
  let ?state = "retrieval_input (example_input (Some ''session'') None None) ''q''"
  let ?state' = "?state\<lparr>subgraph_search_tool :=
              example_tool\<lparr>search_pipeline :=
                Some \<lparr>retrieved_sections =
                  Some [example_doc ''a'' 1 (Some 1), example_doc ''b'' 2 None,
                        example_doc ''c'' 3 (Some 2)]\<rparr>\<rparr>\<rparr>"
  let ?deps' = "example_deps\<lparr>AGENT_MAX_QUERY_RETRIEVAL_RESULTS := 1\<rparr>"
  let ?effs = "[SearchToolRun ''q'',
          ToolResponseEvent ''summary''
           (SearchResponseSummary [example_doc ''a'' 1 (Some 1), example_doc ''b'' 2 None]) 0 0]"
  let ?docs = "[example_doc ''a'' 1 (Some 1), example_doc ''b'' 2 None]"
  have a: "strip (query_to_retrieve ?state) \<noteq> []"
    by (simp add: node_eval common_eval)
  have b: "retrieval_loop example_deps (sub_question_id ?state)
           (run (subgraph_search_tool ?state) (query_to_retrieve ?state)) []
           [SearchToolRun (query_to_retrieve ?state)] = (?effs, Inr ?docs)"
    by (simp add: node_eval common_eval)
  have a': "strip (query_to_retrieve ?state') \<noteq> []"
    by (simp add: node_eval common_eval)
  have b': "retrieval_loop ?deps' (sub_question_id ?state')
           (run (subgraph_search_tool ?state') (query_to_retrieve ?state')) []
           [SearchToolRun (query_to_retrieve ?state')] = (?effs, Inr ?docs)"
    by (simp add: node_eval common_eval)
  from doc_retrieval_stats [OF a b] have "doc_retrieval example_deps ?state =
      (?effs, Inr \<lparr>upd_expanded_retrieval_results =
               [\<lparr>query = ''q'', search_results = ?docs,
                 stats = Some \<lparr>fit_score_lift = 0, rerank_effect = 0, fit_scores = []\<rparr>\<rparr>],
             upd_retrieved_documents = ?docs\<rparr>)"
    by (auto simp: node_eval common_eval)
  moreover from doc_retrieval_stats [OF a' b'] have "snd (doc_retrieval ?deps' ?state') =
      Inr \<lparr>upd_expanded_retrieval_results =
               [\<lparr>query = ''q'', search_results = [example_doc ''a'' 1 (Some 1)],
                 stats = Some \<lparr>fit_score_lift = 2, rerank_effect = 0, fit_scores = []\<rparr>\<rparr>],
             upd_retrieved_documents = [example_doc ''a'' 1 (Some 1)]\<rparr>"
    by (auto simp: node_eval common_eval)
  ultimately show ?thesis by (simp only: simp_thms)
qed

subsection \<open>Query expansion\<close>

text \<open>
  C5 (as amended). When the chat session is present and the sub-question identifier is
  absent or parses, \<^verbatim>\<open>expand_queries\<close> calls the model once, on the prompt built from the
  question of the state (blank or not, never stripped) or, only when the state has no
  question at all, from the original query; it returns the pieces of the accumulated
  model response between line breaks, a list that is never empty.
\<close>

theorem expand_queries_result:
  assumes "chat_session_id (subgraph_config state) \<noteq> None"
    and "sub_question_id state = None \<or>
         (\<exists>sid parsed. sub_question_id state = Some sid \<and> parse_question_id env sid = Inr parsed)"
  shows "\<exists>queries.
     expand_queries env state =
       ([LlmStream (REWRITE_PROMPT_MULTI_ORIGINAL env (question_or_original state))],
        Inr \<lparr>upd_expanded_queries = queries\<rparr>) \<and>
     queries \<noteq> [] \<and>
     queries = split (CHR 0x0A)
        (concat (stream (subgraph_fast_llm state)
           (REWRITE_PROMPT_MULTI_ORIGINAL env (question_or_original state)))) \<and>
     (\<forall>q. question state = Some q \<longrightarrow> question_or_original state = q) \<and>
     (question state = None \<longrightarrow>
        question_or_original state = request_query (search_request (subgraph_config state)))"
  using assms
  by (auto simp: expand_queries_def Let_def merged_stream_content_def split_nonempty
        question_or_original_def split: sum.splits)

theorem expand_queries_result_witness:
  "expand_queries example_deps (example_input (Some ''session'') None (Some ''0_1''))
     = ([LlmStream ''refund policy''], Inr \<lparr>upd_expanded_queries = [''refund policy'']\<rparr>)"
proof -
  let ?state = "example_input (Some ''session'') None (Some ''0_1'')"
  have a: "chat_session_id (subgraph_config ?state) \<noteq> None"
    by (simp add: example_input_def)
  have b: "sub_question_id ?state = None \<or>
         (\<exists>sid parsed. sub_question_id ?state = Some sid \<and>
            parse_question_id example_deps sid = Inr parsed)"
    by (simp add: node_eval common_eval)
  from expand_queries_result [OF a b] show ?thesis
    by (auto simp: node_eval common_eval)
qed

text \<open>C5 as stated fails: a blank question is sent to the model as it is, and the
  returned list is whatever the model answers; here it does not contain the original
  query.\<close>

theorem expand_queries_blank_counterexample:
  "strip ''  '' = [] \<and>
   expand_queries example_deps (example_input (Some ''session'') (Some ''  '') None)
     = ([LlmStream ''  ''], Inr \<lparr>upd_expanded_queries = [''  '']\<rparr>) \<and>
   request_query (search_request (subgraph_config
      (example_input (Some ''session'') (Some ''  '') None))) = ''refund policy'' \<and>
   ''refund policy'' \<notin> set [''  '']"
  by (simp add: node_eval common_eval)

text \<open>
  C6 (as amended). \<^verbatim>\<open>expand_queries\<close> raises exactly when the chat session is missing or
  the sub-question identifier is present and rejected by \<^verbatim>\<open>parse_question_id\<close>; it raises
  exactly when it has not called the model. The identifier is parsed first, so its error
  is the one raised whenever it is rejected; with the identifier absent or well formed, a
  missing chat session raises the \<^verbatim>\<open>ValueError\<close> of line 82.
\<close>

theorem expand_queries_raises:
  "((\<exists>e. snd (expand_queries env state) = Inl e) \<longleftrightarrow>
      (chat_session_id (subgraph_config state) = None \<or>
       (\<exists>sid e. sub_question_id state = Some sid \<and> parse_question_id env sid = Inl e))) \<and>
   ((\<exists>e. snd (expand_queries env state) = Inl e) \<longleftrightarrow> fst (expand_queries env state) = []) \<and>
   (\<forall>sid e. sub_question_id state = Some sid \<and> parse_question_id env sid = Inl e \<longrightarrow>
      expand_queries env state = ([], Inl e)) \<and>
   (chat_session_id (subgraph_config state) = None \<and>
    (sub_question_id state = None \<or>
     (\<exists>sid parsed. sub_question_id state = Some sid \<and> parse_question_id env sid = Inr parsed)) \<longrightarrow>
      expand_queries env state =
        ([], Inl (ValueError ''chat_session_id must be provided for agent search'')))"
  by (cases "sub_question_id state")
     (auto simp: expand_queries_def Let_def split: sum.splits)

theorem expand_queries_raises_witness:
  "expand_queries example_deps (example_input None (Some ''q'') (Some ''0_1''))
     = ([], Inl (ValueError ''chat_session_id must be provided for agent search'')) \<and>
   expand_queries example_deps (example_input None (Some ''q'') (Some ''abc''))
     = ([], Inl (ValueError ''wrong number of values to unpack''))"
proof -
  have a: "decode_question_id ''0_1'' = Inr (0, 1)"
    by (simp add: node_eval common_eval)
  have b: "decode_question_id ''abc'' = Inl (ValueError ''wrong number of values to unpack'')"
    by (simp add: node_eval common_eval)
  from expand_queries_raises [of example_deps "example_input None (Some ''q'') (Some ''0_1'')"]
  have "expand_queries example_deps (example_input None (Some ''q'') (Some ''0_1''))
     = ([], Inl (ValueError ''chat_session_id must be provided for agent search''))"
    using a by (simp add: example_input_def example_deps_def)
  moreover
  from expand_queries_raises [of example_deps "example_input None (Some ''q'') (Some ''abc'')"]
  have "expand_queries example_deps (example_input None (Some ''q'') (Some ''abc''))
     = ([], Inl (ValueError ''wrong number of values to unpack''))"
    using b by (simp add: example_input_def example_deps_def)
  ultimately show ?thesis by (simp only: simp_thms)
qed

text \<open>C6 as stated fails: with the chat session present, an identifier that does not
  parse raises before the model is called.\<close>

theorem expand_queries_raises_counterexample:
  "chat_session_id (subgraph_config (example_input (Some ''session'') (Some ''q'') (Some ''abc'')))
     = Some ''session'' \<and>
   expand_queries example_deps (example_input (Some ''session'') (Some ''q'') (Some ''abc''))
     = ([], Inl (ValueError ''wrong number of values to unpack''))"
  by (simp add: node_eval common_eval)

subsection \<open>Verification\<close>

text \<open>
  C4. \<^verbatim>\<open>doc_verification\<close> never raises on the response of the model: it returns the
  document it was given, alone, or nothing. It returns the document exactly when the
  content of the response is a string whose lowercased text contains \<^verbatim>\<open>yes\<close>; every other
  response, a content that is not a string included, gives the empty list.
\<close>

theorem doc_verification_yes_iff:
  "\<exists>update. doc_verification env state =
       ([LlmInvoke (VERIFIER_PROMPT env (verification_question state)
                      (combined_content (doc_to_verify state)))],
        Inr update) \<and>
     (upd_verified_documents update = [doc_to_verify state] \<or> upd_verified_documents update = []) \<and>
     (upd_verified_documents update = [doc_to_verify state] \<longleftrightarrow>
        (\<exists>text pre post.
           invoke (subgraph_fast_llm state)
             (VERIFIER_PROMPT env (verification_question state)
                (combined_content (doc_to_verify state)))
             = StrContent text \<and>
           lower text = pre @ ''yes'' @ post))"
  by (auto simp: doc_verification_def Let_def py_in_iff split: message_content.splits)

theorem doc_verification_yes_iff_witness:
  "doc_verification example_deps (example_task (StrContent ''Yes.''))
     = ([LlmInvoke ''qa''], Inr \<lparr>upd_verified_documents = [example_doc ''a'' 1 (Some 1)]\<rparr>) \<and>
   lower ''Yes.'' = [] @ ''yes'' @ ''.'' \<and>
   doc_verification example_deps (example_task (StrContent ''No.''))
     = ([LlmInvoke ''qa''], Inr \<lparr>upd_verified_documents = []\<rparr>) \<and>
   doc_verification example_deps (example_task (ListContent [''yes'']))
     = ([LlmInvoke ''qa''], Inr \<lparr>upd_verified_documents = []\<rparr>)"
  using doc_verification_yes_iff [of example_deps "example_task (StrContent ''Yes.'')"]
  by (simp add: node_eval common_eval)

subsection \<open>Reranking\<close>

text \<open>
  C8. With \<^verbatim>\<open>AGENT_RERANKING_STATS\<close> off, \<^verbatim>\<open>doc_reranking\<close> returns and its stats are the
  object with lift 0, rerank effect 0 and an empty score map, never \<open>None\<close>.
\<close>

theorem doc_reranking_stats_disabled:
  assumes "\<not> AGENT_RERANKING_STATS env"
  shows "\<exists>update. doc_reranking env state = ([], Inr update) \<and>
     upd_sub_question_retrieval_stats update =
       Some \<lparr>fit_score_lift = 0, rerank_effect = 0, fit_scores = []\<rparr>"
  using assms by (simp add: doc_reranking_def Let_def)

theorem doc_reranking_stats_disabled_witness:
  "doc_reranking example_deps (example_state [])
     = ([], Inr \<lparr>upd_reranked_documents = [],
                 upd_sub_question_retrieval_stats =
                   Some \<lparr>fit_score_lift = 0, rerank_effect = 0, fit_scores = []\<rparr>\<rparr>)"
proof -
  have "\<not> AGENT_RERANKING_STATS example_deps" by (simp add: example_deps_def)
  from doc_reranking_stats_disabled [OF this, of "example_state []"] show ?thesis
    by (auto simp: node_eval common_eval)
qed

lemma doc_reranking_documents:
  "\<exists>fit. doc_reranking env state =
     ([], Inr \<lparr>upd_reranked_documents =
                 py_take (AGENT_RERANKING_MAX_QUERY_RETRIEVAL_RESULTS env)
                   (if reranking_configured (retrieval_preprocessing env (question_or_original state))
                    then genuine_sections
                           (rerank_sections env (retrieval_preprocessing env (question_or_original state))
                              (verified_documents state))
                    else verified_documents state),
               upd_sub_question_retrieval_stats = fit\<rparr>)"
  by (simp add: doc_reranking_def Let_def genuine_sections_map)

lemma doc_reranking_subset:
  assumes "reranking_configured (retrieval_preprocessing env (question_or_original state)) \<longrightarrow>
           keeps_to_documents env (retrieval_preprocessing env (question_or_original state))
             (verified_documents state)"
    and "snd (doc_reranking env state) = Inr update"
  shows "set (upd_reranked_documents update) \<subseteq> set (verified_documents state)"
proof -
  from doc_reranking_documents [of env state] assms(2) obtain fit where
    u: "update = \<lparr>upd_reranked_documents =
                 py_take (AGENT_RERANKING_MAX_QUERY_RETRIEVAL_RESULTS env)
                   (if reranking_configured (retrieval_preprocessing env (question_or_original state))
                    then genuine_sections
                           (rerank_sections env (retrieval_preprocessing env (question_or_original state))
                              (verified_documents state))
                    else verified_documents state),
               upd_sub_question_retrieval_stats = fit\<rparr>"
    by auto
  show ?thesis
  proof (cases "reranking_configured (retrieval_preprocessing env (question_or_original state))")
    case True
    with assms(1) have "set (genuine_sections
        (rerank_sections env (retrieval_preprocessing env (question_or_original state))
           (verified_documents state))) \<subseteq> set (verified_documents state)"
      by (simp add: keeps_to_documents_def)
    with True u set_py_take show ?thesis by fastforce
  next
    case False
    with u set_py_take show ?thesis by fastforce
  qed
qed

text \<open>
  C3 (as amended). \<^verbatim>\<open>doc_reranking\<close> always returns. If the reranker, when one is
  configured, returns no genuine section other than the verified documents it was given,
  then every document of the final list is a verified document (without a configured
  reranker the condition is void). Independently, for a cap that is not negative the
  final list is no longer than the cap.
\<close>

theorem doc_reranking_subset_capped:
  "\<exists>update. doc_reranking env state = ([], Inr update) \<and>
     ((reranking_configured (retrieval_preprocessing env (question_or_original state)) \<longrightarrow>
       keeps_to_documents env (retrieval_preprocessing env (question_or_original state))
         (verified_documents state)) \<longrightarrow>
      set (upd_reranked_documents update) \<subseteq> set (verified_documents state)) \<and>
     (0 \<le> AGENT_RERANKING_MAX_QUERY_RETRIEVAL_RESULTS env \<longrightarrow>
      int (length (upd_reranked_documents update))
        \<le> AGENT_RERANKING_MAX_QUERY_RETRIEVAL_RESULTS env)"
proof -
  from doc_reranking_documents [of env state] obtain update where
    u: "doc_reranking env state = ([], Inr update)"
    and l: "\<exists>docs. upd_reranked_documents update =
              py_take (AGENT_RERANKING_MAX_QUERY_RETRIEVAL_RESULTS env) docs"
    by fastforce
  from u have s: "snd (doc_reranking env state) = Inr update" by simp
  have "set (upd_reranked_documents update) \<subseteq> set (verified_documents state)"
    if "reranking_configured (retrieval_preprocessing env (question_or_original state)) \<longrightarrow>
        keeps_to_documents env (retrieval_preprocessing env (question_or_original state))
          (verified_documents state)"
    using that s by (rule doc_reranking_subset)
  moreover
  have "int (length (upd_reranked_documents update)) \<le> AGENT_RERANKING_MAX_QUERY_RETRIEVAL_RESULTS env"
    if "0 \<le> AGENT_RERANKING_MAX_QUERY_RETRIEVAL_RESULTS env"
    using l that length_py_take by fastforce
  ultimately show ?thesis using u by blast
qed

text \<open>A configured reranker that reverses the two verified documents behind a malformed
  entry, with a cap of 1.\<close>

theorem doc_reranking_subset_capped_witness:
  "doc_reranking example_deps
     (example_state [example_doc ''a'' 1 (Some 1), example_doc ''b'' 2 None])
     = ([], Inr \<lparr>upd_reranked_documents = [example_doc ''b'' 2 None],
                 upd_sub_question_retrieval_stats =
                   Some \<lparr>fit_score_lift = 0, rerank_effect = 0, fit_scores = []\<rparr>\<rparr>) \<and>
   AGENT_RERANKING_MAX_QUERY_RETRIEVAL_RESULTS example_deps = 1 \<and>
   set [example_doc ''b'' 2 None] \<subseteq> set [example_doc ''a'' 1 (Some 1), example_doc ''b'' 2 None]"
proof -
  let ?state = "example_state [example_doc ''a'' 1 (Some 1), example_doc ''b'' 2 None]"
  have a: "reranking_configured (retrieval_preprocessing example_deps (question_or_original ?state)) \<longrightarrow>
           keeps_to_documents example_deps
             (retrieval_preprocessing example_deps (question_or_original ?state))
             (verified_documents ?state)"
    by (simp add: node_eval common_eval keeps_to_documents_def)
  have b: "0 \<le> AGENT_RERANKING_MAX_QUERY_RETRIEVAL_RESULTS example_deps"
    by (simp add: example_deps_def)
  from doc_reranking_subset_capped [of example_deps ?state] a b
  obtain update where
    "doc_reranking example_deps ?state = ([], Inr update)"
    "set (upd_reranked_documents update) \<subseteq> set (verified_documents ?state)"
    "int (length (upd_reranked_documents update))
       \<le> AGENT_RERANKING_MAX_QUERY_RETRIEVAL_RESULTS example_deps"
    by blast
  then show ?thesis
    by (auto simp: node_eval common_eval)
qed

text \<open>C3 as stated fails twice. \<^verbatim>\<open>doc_reranking\<close> keeps every genuine section that the
  reranker returns, also one that is not among the verified documents. And the cap is the
  bound of a slice: with a cap of -1 the final list is the reranked list without its
  last document, here one document.\<close>

theorem doc_reranking_invents_counterexample:
  "doc_reranking inventing_deps (example_state [example_doc ''a'' 1 (Some 1)])
     = ([], Inr \<lparr>upd_reranked_documents = [example_doc ''z'' 9 None],
                 upd_sub_question_retrieval_stats =
                   Some \<lparr>fit_score_lift = 0, rerank_effect = 0, fit_scores = []\<rparr>\<rparr>) \<and>
   example_doc ''z'' 9 None \<notin> set (verified_documents (example_state [example_doc ''a'' 1 (Some 1)])) \<and>
   doc_reranking (example_deps\<lparr>AGENT_RERANKING_MAX_QUERY_RETRIEVAL_RESULTS := - 1\<rparr>)
     (example_state [example_doc ''a'' 1 (Some 1), example_doc ''b'' 2 None])
     = ([], Inr \<lparr>upd_reranked_documents = [example_doc ''b'' 2 None],
                 upd_sub_question_retrieval_stats =
                   Some \<lparr>fit_score_lift = 0, rerank_effect = 0, fit_scores = []\<rparr>\<rparr>) \<and>
   AGENT_RERANKING_MAX_QUERY_RETRIEVAL_RESULTS
     (example_deps\<lparr>AGENT_RERANKING_MAX_QUERY_RETRIEVAL_RESULTS := - 1\<rparr>)
     < int (length [example_doc ''b'' 2 None])"
  by (simp add: node_eval common_eval)

subsection \<open>The graph\<close>

lemma retrieved_of_append: "retrieved_of (xs @ ys) = retrieved_of xs @ retrieved_of ys"
  by (simp add: retrieved_of_def)

lemma doc_retrieval_documents:
  "snd (doc_retrieval env state) = Inr update \<Longrightarrow>
   upd_retrieved_documents update = retrieved_of (upd_expanded_retrieval_results update)"
  by (auto simp: doc_retrieval_def Let_def retrieved_of_def split: if_splits prod.splits sum.splits)

lemma retrievals_documents:
  "all_results (map (\<lambda>q. snd (doc_retrieval env (mk q))) queries) = Inr retrievals \<Longrightarrow>
   concat (map upd_retrieved_documents retrievals) =
     retrieved_of (concat (map upd_expanded_retrieval_results retrievals))"
proof (induction queries arbitrary: retrievals)
  case Nil
  then show ?case by (simp add: retrieved_of_def)
next
  case (Cons q queries)
  from Cons.prems obtain u us where
    u: "snd (doc_retrieval env (mk q)) = Inr u"
    and us: "all_results (map (\<lambda>q. snd (doc_retrieval env (mk q))) queries) = Inr us"
    and r: "retrievals = u # us"
    by (auto split: sum.splits)
  from doc_retrieval_documents [OF u] Cons.IH [OF us] r show ?case
    by (simp add: retrieved_of_append)
qed

lemma doc_verification_documents:
  "snd (doc_verification env task) = Inr update \<Longrightarrow>
   set (upd_verified_documents update) \<subseteq> {doc_to_verify task}"
  by (auto simp: doc_verification_def Let_def split: message_content.splits if_splits)

lemma verifications_documents:
  "all_results (map (\<lambda>task. snd (doc_verification env task)) tasks) = Inr verifications \<Longrightarrow>
   set (concat (map upd_verified_documents verifications)) \<subseteq> set (map doc_to_verify tasks)"
proof (induction tasks arbitrary: verifications)
  case Nil
  then show ?case by simp
next
  case (Cons task tasks)
  from Cons.prems obtain u us where
    u: "snd (doc_verification env task) = Inr u"
    and us: "all_results (map (\<lambda>task. snd (doc_verification env task)) tasks) = Inr us"
    and r: "verifications = u # us"
    by (auto split: sum.splits)
  from doc_verification_documents [OF u] Cons.IH [OF us] r show ?case
    by auto
qed

lemma verification_kickoff_documents:
  "map doc_to_verify (verification_kickoff state) = retrieved_documents state"
  by (simp add: verification_kickoff_def Let_def comp_def)

lemma format_results_fields:
  "snd (format_results state) = Inr update \<Longrightarrow>
   all_documents (expanded_retrieval_result update) = reranked_documents state \<and>
   expanded_queries_results (expanded_retrieval_result update) = expanded_retrieval_results state"
  by (auto simp: format_results_def split: sum.splits)

text \<open>
  C9 (as amended). If the reranker, when one is configured, returns no genuine section
  other than the documents it was given, then every document of the final bundle is a
  retrieved document of one of the bundle's query results.
\<close>

theorem no_document_fabricated:
  assumes run: "expanded_retrieval env input = Inr bundle"
    and reranker: "reranking_configured (retrieval_preprocessing env (question_or_original input)) \<longrightarrow>
           returns_given_documents env (retrieval_preprocessing env (question_or_original input))"
  shows "set (all_documents bundle) \<subseteq> set (retrieved_of (expanded_queries_results bundle))"
proof -
  obtain expansion where e: "snd (expand_queries env input) = Inr expansion"
    using run by (cases "snd (expand_queries env input)") (simp_all add: expanded_retrieval_def)
  obtain retrievals where
    r: "all_results (map (\<lambda>q. snd (doc_retrieval env (retrieval_input input q)))
          (upd_expanded_queries expansion)) = Inr retrievals"
    using run e
    by (cases "all_results (map (\<lambda>q. snd (doc_retrieval env (retrieval_input input q)))
          (upd_expanded_queries expansion))") (simp_all add: expanded_retrieval_def)
  let ?state1 = "retrieved_state input (upd_expanded_queries expansion) retrievals"
  obtain verifications where
    v: "all_results (map (\<lambda>task. snd (doc_verification env task)) (verification_kickoff ?state1))
          = Inr verifications"
    using run e r
    by (cases "all_results (map (\<lambda>task. snd (doc_verification env task))
          (verification_kickoff ?state1))") (simp_all add: expanded_retrieval_def)
  let ?state2 = "?state1\<lparr>verified_documents := concat (map upd_verified_documents verifications)\<rparr>"
  obtain reranking where k: "snd (doc_reranking env ?state2) = Inr reranking"
    using run e r v
    by (cases "snd (doc_reranking env ?state2)") (simp_all add: expanded_retrieval_def)
  let ?state3 = "?state2\<lparr>reranked_documents := upd_reranked_documents reranking\<rparr>"
  obtain update where f: "snd (format_results ?state3) = Inr update"
    using run e r v k
    by (cases "snd (format_results ?state3)") (simp_all add: expanded_retrieval_def)
  from run e r v k f have b: "bundle = expanded_retrieval_result update"
    by (simp add: expanded_retrieval_def)
  have q: "question_or_original ?state2 = question_or_original input"
    by (simp add: question_or_original_def retrieved_state_def split: option.splits)
  from reranker have "reranking_configured (retrieval_preprocessing env (question_or_original ?state2)) \<longrightarrow>
      keeps_to_documents env (retrieval_preprocessing env (question_or_original ?state2))
        (verified_documents ?state2)"
    unfolding q by (simp add: returns_given_documents_def)
  from doc_reranking_subset [OF this k]
  have "set (upd_reranked_documents reranking) \<subseteq> set (concat (map upd_verified_documents verifications))"
    by simp
  also from verifications_documents [OF v]
  have "\<dots> \<subseteq> set (retrieved_documents ?state1)"
    by (simp only: verification_kickoff_documents)
  also have "retrieved_documents ?state1 = concat (map upd_retrieved_documents retrievals)"
    by (simp add: retrieved_state_def)
  also from retrievals_documents [OF r]
  have "\<dots> = retrieved_of (expanded_retrieval_results ?state1)"
    by (simp add: retrieved_state_def)
  finally have "set (upd_reranked_documents reranking) \<subseteq> set (retrieved_of (expanded_retrieval_results ?state1))" .
  with format_results_fields [OF f] b show ?thesis by simp
qed

theorem no_document_fabricated_witness:
  "expanded_retrieval example_deps (example_input (Some ''session'') (Some ''q'') None) =
     Inr \<lparr>expanded_queries_results =
           [\<lparr>query = ''q'',
             search_results = [example_doc ''a'' 1 (Some 1), example_doc ''b'' 2 None],
             stats = Some \<lparr>fit_score_lift = 0, rerank_effect = 0, fit_scores = []\<rparr>\<rparr>],
          all_documents = [example_doc ''b'' 2 None],
          sub_question_retrieval_stats =
            \<lparr>verified_count = 1, verified_avg_scores = 1, rejected_count = 0,
             rejected_avg_scores = None, verified_doc_chunk_ids = [''a_1'', ''b_2''],
             dismissed_doc_chunk_ids = []\<rparr>\<rparr> \<and>
   example_doc ''b'' 2 None \<in> set [example_doc ''a'' 1 (Some 1), example_doc ''b'' 2 None]"
proof -
  let ?input = "example_input (Some ''session'') (Some ''q'') None"
  let ?expected = "\<lparr>expanded_queries_results =
           [\<lparr>query = ''q'',
             search_results = [example_doc ''a'' 1 (Some 1), example_doc ''b'' 2 None],
             stats = Some \<lparr>fit_score_lift = 0, rerank_effect = 0, fit_scores = []\<rparr>\<rparr>],
          all_documents = [example_doc ''b'' 2 None],
          sub_question_retrieval_stats =
            \<lparr>verified_count = 1, verified_avg_scores = 1, rejected_count = 0,
             rejected_avg_scores = None, verified_doc_chunk_ids = [''a_1'', ''b_2''],
             dismissed_doc_chunk_ids = []\<rparr>\<rparr>"
  have a: "expanded_retrieval example_deps ?input = Inr ?expected"
    by (simp add: node_eval stats_eval common_eval)
  have "returns_given_documents example_deps
      (retrieval_preprocessing example_deps (question_or_original ?input))"
    by (simp add: returns_given_documents_def keeps_to_documents_def example_deps_def
        genuine_sections_map)
  then have b: "reranking_configured
        (retrieval_preprocessing example_deps (question_or_original ?input)) \<longrightarrow>
      returns_given_documents example_deps
        (retrieval_preprocessing example_deps (question_or_original ?input))"
    by simp
  from no_document_fabricated [OF a b] a show ?thesis
    by (simp add: retrieved_of_def)
qed

text \<open>C9 as stated fails: a section that the reranker adds reaches the final bundle
  although no query retrieved it.\<close>

theorem document_fabricated_counterexample:
  "expanded_retrieval inventing_deps (example_input (Some ''session'') (Some ''q'') None) =
     Inr \<lparr>expanded_queries_results =
           [\<lparr>query = ''q'',
             search_results = [example_doc ''a'' 1 (Some 1), example_doc ''b'' 2 None],
             stats = Some \<lparr>fit_score_lift = 0, rerank_effect = 0, fit_scores = []\<rparr>\<rparr>],
          all_documents = [example_doc ''z'' 9 None],
          sub_question_retrieval_stats =
            \<lparr>verified_count = 1, verified_avg_scores = 1, rejected_count = 0,
             rejected_avg_scores = None, verified_doc_chunk_ids = [''a_1'', ''b_2''],
             dismissed_doc_chunk_ids = []\<rparr>\<rparr> \<and>
   example_doc ''z'' 9 None \<notin> set [example_doc ''a'' 1 (Some 1), example_doc ''b'' 2 None]"
  by (simp add: node_eval stats_eval common_eval)

end
